theory Spec2Isabelle
  imports Main "HOL-Library.Sublist" "HOL-Library.AList"
begin

section \<open>Data model\<close>

text \<open>
  The two source files are \<^verbatim>\<open>a2a_servers/common/agent_task_manager.py\<close> (the task
  manager of a server) and \<^verbatim>\<open>a2a_servers/agents/utils/remote_agent_connection.py\<close>
  (the client side dispatcher). Python values that the code inspects dynamically
  (\<^verbatim>\<open>isinstance\<close>, \<^verbatim>\<open>in\<close>, subscripting) are values of \<open>pyval\<close>; a dict with
  string keys is an association list in insertion order whose keys are distinct.
\<close>

datatype pyval =
    PyNone
  | PyBool bool
  | PyInt int
  | PyStr string
  | PyList "pyval list"
  | PyDict "(string \<times> pyval) list"

type_synonym pydict = "(string \<times> pyval) list"

text \<open>Exceptions are values: the class and the message (\<^verbatim>\<open>str(e)\<close>).\<close>

datatype exc_class =
    ValueError
  | TypeError
  | KeyError
  | IndexError
  | AttributeError
  | UnboundLocalError
  | JSONDecodeError
  | ValidationError
  | OtherException

datatype exception = Raised exc_class string

fun exc_str :: "exception \<Rightarrow> string" where
  "exc_str (Raised c msg) = msg"

datatype TaskState = SUBMITTED | WORKING | INPUT_REQUIRED | COMPLETED

text \<open>
  A part is written in the source as a dict literal \<^verbatim>\<open>{"type": "text", "text": v}\<close> or
  \<^verbatim>\<open>{"type": "data", "data": v}\<close>; the constructor is the \<^verbatim>\<open>type\<close> tag and the argument
  the value stored beside it.
\<close>

datatype part = TextPart pyval | DataPart pyval

record message =
  m_role :: string
  m_parts :: "part list"
  m_metadata :: "pydict option"

record TaskStatus =
  ts_state :: TaskState
  ts_message :: "message option"

text \<open>
  \<open>a_index\<close> and \<open>a_append\<close> are \<open>None\<close> where the caller passes no such argument
  (\<^verbatim>\<open>Artifact(parts=parts)\<close> in \<^verbatim>\<open>_invoke\<close>).
\<close>

record Artifact =
  a_parts :: "part list"
  a_index :: "int option"
  a_append :: "bool option"

record Task =
  t_id :: string
  t_sessionId :: string
  t_status :: TaskStatus
  t_artifacts :: "Artifact list option"
  t_history :: "message list option"
  t_metadata :: "pydict option"

record TaskSendParams =
  p_id :: string
  p_sessionId :: string
  p_message :: message
  p_acceptedOutputModes :: "string list option"
  p_metadata :: "pydict option"

record request =
  r_id :: string
  r_params :: TaskSendParams

record TaskStatusUpdateEvent =
  se_id :: string
  se_status :: TaskStatus
  se_final :: bool
  se_metadata :: "pydict option"

record TaskArtifactUpdateEvent =
  ae_id :: string
  ae_artifact :: Artifact
  ae_metadata :: "pydict option"

text \<open>The task store of \<^verbatim>\<open>InMemoryTaskManager\<close>: the dict \<^verbatim>\<open>self.tasks\<close>.\<close>

type_synonym store = "string \<rightharpoonup> Task"

section \<open>The task store update\<close>

text \<open>
  \<^verbatim>\<open>AgentTaskManager._update_store\<close> (the leading underscore is dropped: it is not an
  Isabelle identifier). The body runs under \<^verbatim>\<open>self.lock\<close>, so it is one step on the
  store. The task object is mutated in place, so the store holds the updated task
  and the same task is returned. The result pairs what the call returns or raises with
  the store after the call.
\<close>

definition update_store ::
  "store \<Rightarrow> string \<Rightarrow> TaskStatus \<Rightarrow> Artifact list option \<Rightarrow> (exception + Task) \<times> store" where
  "update_store tasks task_id status artifacts =
     (case tasks task_id of
        None \<Rightarrow> (Inl (Raised ValueError (''Task '' @ task_id @ '' not found'')), tasks)
      | Some task \<Rightarrow>
          (let task1 = task\<lparr>t_status := status\<rparr>;
               task2 =
                 (case artifacts of
                    None \<Rightarrow> task1
                  | Some arts \<Rightarrow>
                      (let current =
                             (case t_artifacts task1 of None \<Rightarrow> [] | Some old \<Rightarrow> old)
                       in task1\<lparr>t_artifacts := Some (current @ arts)\<rparr>))
           in (Inr task2, tasks(task_id \<mapsto> task2))))"

section \<open>Python operations on dynamic values\<close>

text \<open>\<^verbatim>\<open>needle in haystack\<close> on two strings: the substring test.\<close>

fun str_contains :: "string \<Rightarrow> string \<Rightarrow> bool" where
  "str_contains needle [] = (needle = [])"
| "str_contains needle (c # cs) = (prefix needle (c # cs) \<or> str_contains needle cs)"

text \<open>
  \<^verbatim>\<open>k in v\<close> for a string \<open>k\<close>: key membership on a dict, the substring test on a
  string, element membership on a list, and \<^verbatim>\<open>TypeError\<close> on a value that is not iterable.
\<close>

fun py_in :: "string \<Rightarrow> pyval \<Rightarrow> exception + bool" where
  "py_in k (PyDict d) = Inr (map_of d k \<noteq> None)"
| "py_in k (PyStr s) = Inr (str_contains k s)"
| "py_in k (PyList xs) = Inr (List.member xs (PyStr k))"
| "py_in k v = Inl (Raised TypeError ''argument is not iterable'')"

text \<open>
  \<^verbatim>\<open>v[k]\<close> for a string \<open>k\<close>: the value of the key on a dict (\<^verbatim>\<open>KeyError\<close> when it is
  missing), and \<^verbatim>\<open>TypeError\<close> on every other value (string and list indices must be
  integers, the others are not subscriptable).
\<close>

fun py_getitem :: "pyval \<Rightarrow> string \<Rightarrow> exception + pyval" where
  "py_getitem (PyDict d) k =
     (case map_of d k of None \<Rightarrow> Inl (Raised KeyError k) | Some v \<Rightarrow> Inr v)"
| "py_getitem v k = Inl (Raised TypeError ''indices must be integers or value not subscriptable'')"

text \<open>
  \<^verbatim>\<open>json.loads\<close> belongs to the Python library. Its decoder is the parameter \<open>loads\<close>
  (\<open>None\<close> where the text is not JSON); on a value that is not a string it raises
  \<^verbatim>\<open>TypeError\<close>.
\<close>

fun json_loads :: "(string \<Rightarrow> pyval option) \<Rightarrow> pyval \<Rightarrow> exception + pyval" where
  "json_loads loads (PyStr s) =
     (case loads s of None \<Rightarrow> Inl (Raised JSONDecodeError ''invalid JSON'') | Some v \<Rightarrow> Inr v)"
| "json_loads loads v = Inl (Raised TypeError ''the JSON object must be str, bytes or bytearray'')"

section \<open>The streaming pipeline of the task manager\<close>

text \<open>
  An update of the agent: the dict \<^verbatim>\<open>item\<close> with the keys \<^verbatim>\<open>is_task_complete\<close>,
  \<^verbatim>\<open>updates\<close> and \<^verbatim>\<open>content\<close>.
\<close>

record item =
  is_task_complete :: bool
  updates :: pyval
  content :: pyval

text \<open>
  What an asynchronous iterable does when it is consumed: it ends, it raises, or it
  yields one element and goes on. The values are finite sequences; a producer that
  never ends is outside the model (the generator below yields nothing before its
  upstream has ended).
\<close>

datatype 'a source = End | Fails exception | Yield 'a "'a source"

fun prepend :: "'a list \<Rightarrow> 'a source \<Rightarrow> 'a source" where
  "prepend [] s = s"
| "prepend (x # xs) s = Yield x (prepend xs s)"

datatype payload =
    ResultTask Task
  | ResultStatus TaskStatusUpdateEvent
  | ResultArtifact TaskArtifactUpdateEvent
  | ResultNone

datatype rpc_error = InternalError string | OtherError int string

datatype response =
    SendTaskStreamingResponse string payload
  | SendTaskResponse string Task
  | JSONRPCResponse string rpc_error

text \<open>
  Lines 42 to 53 of \<^verbatim>\<open>_stream_generator\<close>: the task state and the parts of a complete
  update, from its content. \<^verbatim>\<open>and\<close> evaluates its right operand only when the left one
  is true.
\<close>

definition terminal_rule ::
  "(string \<Rightarrow> pyval option) \<Rightarrow> pyval \<Rightarrow> exception + (TaskState \<times> part list)" where
  "terminal_rule loads c =
     (case c of
        PyDict d \<Rightarrow>
          (case (case py_in ''response'' c of
                   Inl e \<Rightarrow> Inl e
                 | Inr b \<Rightarrow>
                     if b then
                       (case py_getitem c ''response'' of
                          Inl e \<Rightarrow> Inl e
                        | Inr r \<Rightarrow> py_in ''result'' r)
                     else Inr False) of
             Inl e \<Rightarrow> Inl e
           | Inr b \<Rightarrow>
               if b then
                 (case py_getitem c ''response'' of
                    Inl e \<Rightarrow> Inl e
                  | Inr r \<Rightarrow>
                      (case py_getitem r ''result'' of
                         Inl e \<Rightarrow> Inl e
                       | Inr x \<Rightarrow>
                           (case json_loads loads x of
                              Inl e \<Rightarrow> Inl e
                            | Inr data \<Rightarrow> Inr (INPUT_REQUIRED, [DataPart data]))))
               else Inr (COMPLETED, [DataPart c]))
      | _ \<Rightarrow> Inr (COMPLETED, [TextPart c]))"

text \<open>
  Modelled from the spec: the classes \<^verbatim>\<open>Message\<close> and \<^verbatim>\<open>Artifact\<close> and the classes of
  their parts are declared in \<^verbatim>\<open>a2a_servers.common.types\<close>, which is not among the
  sources. The specification (3) has every part typed, text or structured data, and
  (6) has the agent's updates be text and its content text or structured: a text part
  holds a string and a data part holds a mapping.
\<close>

fun valid_part :: "part \<Rightarrow> bool" where
  "valid_part (TextPart (PyStr s)) = True"
| "valid_part (DataPart (PyDict d)) = True"
| "valid_part p = False"

text \<open>
  Modelled from the spec: the constructor call \<^verbatim>\<open>Artifact(parts=..., index=..., append=...)\<close>.
  The source passes the parts as dict literals and the class checks them against the
  types of its parts; a part that fits none of them raises a validation error.
\<close>

definition new_Artifact :: "part list \<Rightarrow> int option \<Rightarrow> bool option \<Rightarrow> exception + Artifact" where
  "new_Artifact parts index append_flag =
     (if list_all valid_part parts
      then Inr \<lparr>a_parts = parts, a_index = index, a_append = append_flag\<rparr>
      else Inl (Raised ValidationError ''Artifact''))"

text \<open>
  Modelled from the spec: the constructor call \<^verbatim>\<open>Message(role=..., parts=...)\<close>, which
  checks its parts in the same way.
\<close>

definition new_Message :: "string \<Rightarrow> part list \<Rightarrow> exception + message" where
  "new_Message role parts =
     (if list_all valid_part parts
      then Inr \<lparr>m_role = role, m_parts = parts, m_metadata = None\<rparr>
      else Inl (Raised ValidationError ''Message''))"

text \<open>The local variables of \<^verbatim>\<open>_stream_generator\<close> that one pass of the loop body assigns.\<close>

record loop_vars =
  v_is_task_complete :: bool
  v_artifacts :: "Artifact list option"
  v_task_state :: TaskState
  v_parts :: "part list"

text \<open>
  Lines 36 to 54: the body of the \<^verbatim>\<open>async for\<close>. A pass on an update that is not
  complete builds no object from its parts; a pass on a complete one builds the
  artifact (line 54), which raises when the parts do not fit.
\<close>

definition loop_body :: "(string \<Rightarrow> pyval option) \<Rightarrow> item \<Rightarrow> exception + loop_vars" where
  "loop_body loads it =
     (if \<not> is_task_complete it then
        Inr \<lparr>v_is_task_complete = False, v_artifacts = None, v_task_state = WORKING,
             v_parts = [TextPart (updates it)]\<rparr>
      else
        (case terminal_rule loads (content it) of
           Inl e \<Rightarrow> Inl e
         | Inr (task_state, parts) \<Rightarrow>
             (case new_Artifact parts (Some 0) (Some False) of
                Inl e \<Rightarrow> Inl e
              | Inr artifact \<Rightarrow>
                  Inr \<lparr>v_is_task_complete = True, v_artifacts = Some [artifact],
                       v_task_state = task_state, v_parts = parts\<rparr>)))"

text \<open>
  Line 35: the loop. The variables are unbound (\<open>None\<close>) until a first pass has
  assigned them; each later pass assigns all of them again.
\<close>

fun consume ::
  "(string \<Rightarrow> pyval option) \<Rightarrow> item source \<Rightarrow> loop_vars option \<Rightarrow> exception + loop_vars option" where
  "consume loads End vars = Inr vars"
| "consume loads (Fails e) vars = Inl e"
| "consume loads (Yield it rest) vars =
     (case loop_body loads it of
        Inl e \<Rightarrow> Inl e
      | Inr vars' \<Rightarrow> consume loads rest (Some vars'))"

text \<open>\<^verbatim>\<open>_get_user_query\<close>: the text of the first part of the request's message.\<close>

definition get_user_query :: "TaskSendParams \<Rightarrow> exception + pyval" where
  "get_user_query task_send_params =
     (case m_parts (p_message task_send_params) of
        [] \<Rightarrow> Inl (Raised IndexError ''list index out of range'')
      | p # _ \<Rightarrow>
          (case p of
             TextPart t \<Rightarrow> Inr t
           | DataPart _ \<Rightarrow> Inl (Raised AttributeError ''text'')))"

record agent =
  stream :: "pyval \<Rightarrow> string \<Rightarrow> item source"
  invoke :: "pyval \<Rightarrow> string \<Rightarrow> exception + string"
  SUPPORTED_CONTENT_TYPES :: "string list"

text \<open>What a call did to the outside, in order: the ghost trace of the task manager.\<close>

datatype effect =
    Upserted string
  | AgentInvoked pyval string
  | AgentStreamed pyval string

text \<open>
  What running a generator to its end gives: the values it yielded, the exception
  that ended it if one did, the store afterwards and the calls it made.
\<close>

record gen_result =
  g_events :: "response list"
  g_raised :: "exception option"
  g_tasks :: store
  g_trace :: "effect list"

text \<open>
  Lines 55 to 83, which follow the loop: they run once, on the variables the last pass
  of the loop left. Reading \<^verbatim>\<open>parts\<close> when no pass has run raises \<^verbatim>\<open>UnboundLocalError\<close>;
  building the message (line 55) raises when the parts do not fit, before the store
  is touched.
\<close>

definition after_loop :: "store \<Rightarrow> request \<Rightarrow> loop_vars option \<Rightarrow> gen_result" where
  "after_loop tasks request vars =
     (let task_send_params = r_params request in
      case vars of
        None \<Rightarrow>
          \<lparr>g_events = [], g_raised = Some (Raised UnboundLocalError ''parts''),
           g_tasks = tasks, g_trace = []\<rparr>
      | Some vs \<Rightarrow>
          (case new_Message ''agent'' (v_parts vs) of
             Inl e \<Rightarrow>
               \<lparr>g_events = [], g_raised = Some e, g_tasks = tasks, g_trace = []\<rparr>
           | Inr msg \<Rightarrow>
               (let task_status = \<lparr>ts_state = v_task_state vs, ts_message = Some msg\<rparr>
                in case update_store tasks (p_id task_send_params) task_status (v_artifacts vs) of
                     (Inl e, tasks') \<Rightarrow>
                       \<lparr>g_events = [], g_raised = Some e, g_tasks = tasks', g_trace = []\<rparr>
                   | (Inr task, tasks') \<Rightarrow>
                       (let task_update_event =
                              \<lparr>se_id = p_id task_send_params, se_status = task_status,
                               se_final = False, se_metadata = None\<rparr>;
                            status_events =
                              [SendTaskStreamingResponse (r_id request)
                                 (ResultStatus task_update_event)];
                            artifact_events =
                              (case v_artifacts vs of
                                 None \<Rightarrow> []
                               | Some arts \<Rightarrow>
                                   map (\<lambda>artifact. SendTaskStreamingResponse (r_id request)
                                          (ResultArtifact \<lparr>ae_id = p_id task_send_params,
                                             ae_artifact = artifact, ae_metadata = None\<rparr>)) arts);
                            final_events =
                              (if v_is_task_complete vs then
                                 [SendTaskStreamingResponse (r_id request)
                                    (ResultStatus \<lparr>se_id = p_id task_send_params,
                                       se_status = \<lparr>ts_state = ts_state task_status,
                                                    ts_message = None\<rparr>,
                                       se_final = True, se_metadata = None\<rparr>)]
                               else [])
                        in \<lparr>g_events = status_events @ artifact_events @ final_events,
                            g_raised = None, g_tasks = tasks', g_trace = []\<rparr>))))"

text \<open>Lines 34 to 83: the body of the \<^verbatim>\<open>try\<close>.\<close>

definition try_block ::
  "(string \<Rightarrow> pyval option) \<Rightarrow> agent \<Rightarrow> store \<Rightarrow> request \<Rightarrow> pyval \<Rightarrow> gen_result" where
  "try_block loads ag tasks request query =
     (let task_send_params = r_params request;
          called = [AgentStreamed query (p_sessionId task_send_params)]
      in case consume loads (stream ag query (p_sessionId task_send_params)) None of
           Inl e \<Rightarrow> \<lparr>g_events = [], g_raised = Some e, g_tasks = tasks, g_trace = called\<rparr>
         | Inr vars \<Rightarrow> (after_loop tasks request vars)\<lparr>g_trace := called\<rparr>)"

text \<open>
  \<^verbatim>\<open>_stream_generator\<close>, run to its end. \<^verbatim>\<open>_get_user_query\<close> is called before the
  \<^verbatim>\<open>try\<close>, so what it raises leaves the generator; what the \<^verbatim>\<open>try\<close> block raises is
  caught (\<^verbatim>\<open>except Exception\<close>) and answered with one more yield, the error response.
\<close>

definition stream_generator ::
  "(string \<Rightarrow> pyval option) \<Rightarrow> agent \<Rightarrow> store \<Rightarrow> request \<Rightarrow> gen_result" where
  "stream_generator loads ag tasks request =
     (case get_user_query (r_params request) of
        Inl e \<Rightarrow> \<lparr>g_events = [], g_raised = Some e, g_tasks = tasks, g_trace = []\<rparr>
      | Inr query \<Rightarrow>
          (let r = try_block loads ag tasks request query
           in case g_raised r of
                None \<Rightarrow> r
              | Some e \<Rightarrow>
                  r\<lparr>g_events := g_events r @
                       [JSONRPCResponse (r_id request)
                          (InternalError ''An error occurred while streaming the response'')],
                    g_raised := None\<rparr>))"

section \<open>The request handlers of the task manager\<close>

text \<open>
  \<^verbatim>\<open>are_modalities_compatible\<close> and \<^verbatim>\<open>new_incompatible_types_error\<close> are functions of
  \<^verbatim>\<open>a2a_servers.common.server.utils\<close>, which is not among the sources: they are
  parameters. The error response is an object, so it is true in \<^verbatim>\<open>if error:\<close>, and a
  compatible request makes \<^verbatim>\<open>_validate_request\<close> return \<^verbatim>\<open>None\<close>.
\<close>

record utils =
  are_modalities_compatible :: "string list option \<Rightarrow> string list \<Rightarrow> bool"
  new_incompatible_types_error :: "string \<Rightarrow> response"

definition validate_request :: "utils \<Rightarrow> agent \<Rightarrow> request \<Rightarrow> response option" where
  "validate_request u ag request =
     (let task_send_params = r_params request
      in if \<not> are_modalities_compatible u (p_acceptedOutputModes task_send_params)
                (SUPPORTED_CONTENT_TYPES ag)
         then Some (new_incompatible_types_error u (r_id request))
         else None)"

text \<open>
  Modelled from the spec: \<^verbatim>\<open>InMemoryTaskManager.upsert_task\<close> is inherited from
  \<^verbatim>\<open>a2a_servers.common.server.task_manager\<close>, which is not among the sources. The
  specification (4.1) has it create a task when the identifier is absent, in state
  SUBMITTED and with the request's message as its history, and leave an existing
  task as it is. The handlers below take the upsert as a parameter; this definition
  is the instance the specification describes.
\<close>

definition upsert_task :: "store \<Rightarrow> TaskSendParams \<Rightarrow> store" where
  "upsert_task tasks task_send_params =
     (case tasks (p_id task_send_params) of
        Some task \<Rightarrow> tasks
      | None \<Rightarrow>
          tasks(p_id task_send_params \<mapsto>
            \<lparr>t_id = p_id task_send_params, t_sessionId = p_sessionId task_send_params,
             t_status = \<lparr>ts_state = SUBMITTED, ts_message = None\<rparr>,
             t_artifacts = None, t_history = Some [p_message task_send_params],
             t_metadata = None\<rparr>))"

text \<open>
  What a handler call gives: what it returns or raises, the store afterwards and the
  calls it made.
\<close>

record 'r call_result =
  c_value :: "exception + 'r"
  c_tasks :: store
  c_trace :: "effect list"

text \<open>\<^verbatim>\<open>_invoke\<close> (named \<open>invoke_agent\<close>: \<open>invoke\<close> is the agent's method).\<close>

definition invoke_agent :: "agent \<Rightarrow> store \<Rightarrow> request \<Rightarrow> response call_result" where
  "invoke_agent ag tasks request =
     (let task_send_params = r_params request
      in case get_user_query task_send_params of
           Inl e \<Rightarrow> \<lparr>c_value = Inl e, c_tasks = tasks, c_trace = []\<rparr>
         | Inr query \<Rightarrow>
             (let called = [AgentInvoked query (p_sessionId task_send_params)]
              in case invoke ag query (p_sessionId task_send_params) of
                   Inl e \<Rightarrow>
                     \<lparr>c_value = Inl (Raised ValueError (''Error invoking agent: '' @ exc_str e)),
                      c_tasks = tasks, c_trace = called\<rparr>
                 | Inr result \<Rightarrow>
                     (let parts = [TextPart (PyStr result)];
                          task_state =
                            (if str_contains ''MISSING_INFO:'' result then INPUT_REQUIRED
                             else COMPLETED)
                      in case new_Message ''agent'' parts of
                           Inl e \<Rightarrow> \<lparr>c_value = Inl e, c_tasks = tasks, c_trace = called\<rparr>
                         | Inr msg \<Rightarrow>
                             (case new_Artifact parts None None of
                                Inl e \<Rightarrow> \<lparr>c_value = Inl e, c_tasks = tasks, c_trace = called\<rparr>
                              | Inr artifact \<Rightarrow>
                                  (case update_store tasks (p_id task_send_params)
                                          \<lparr>ts_state = task_state, ts_message = Some msg\<rparr>
                                          (Some [artifact]) of
                                     (Inl e, tasks') \<Rightarrow>
                                       \<lparr>c_value = Inl e, c_tasks = tasks', c_trace = called\<rparr>
                                   | (Inr task, tasks') \<Rightarrow>
                                       \<lparr>c_value = Inr (SendTaskResponse (r_id request) task),
                                        c_tasks = tasks', c_trace = called\<rparr>)))))"

definition on_send_task ::
  "utils \<Rightarrow> (store \<Rightarrow> TaskSendParams \<Rightarrow> store) \<Rightarrow> agent \<Rightarrow> store \<Rightarrow> request \<Rightarrow>
     response call_result" where
  "on_send_task u upsert ag tasks request =
     (case validate_request u ag request of
        Some error \<Rightarrow> \<lparr>c_value = Inr error, c_tasks = tasks, c_trace = []\<rparr>
      | None \<Rightarrow>
          (let tasks1 = upsert tasks (r_params request);
               r = invoke_agent ag tasks1 request
           in r\<lparr>c_trace := Upserted (p_id (r_params request)) # c_trace r\<rparr>))"

text \<open>
  \<^verbatim>\<open>on_send_task_subscribe\<close> returns the error response or the generator object. The
  generator has not run when it is returned: it is the request it was made for, and
  \<open>drain\<close> runs it, on the store as it is then.
\<close>

datatype subscription = Rejected response | Generator request

definition on_send_task_subscribe ::
  "utils \<Rightarrow> (store \<Rightarrow> TaskSendParams \<Rightarrow> store) \<Rightarrow> agent \<Rightarrow> store \<Rightarrow> request \<Rightarrow>
     subscription call_result" where
  "on_send_task_subscribe u upsert ag tasks request =
     (case validate_request u ag request of
        Some error \<Rightarrow> \<lparr>c_value = Inr (Rejected error), c_tasks = tasks, c_trace = []\<rparr>
      | None \<Rightarrow>
          \<lparr>c_value = Inr (Generator request), c_tasks = upsert tasks (r_params request),
           c_trace = [Upserted (p_id (r_params request))]\<rparr>)"

definition drain ::
  "(string \<Rightarrow> pyval option) \<Rightarrow> agent \<Rightarrow> subscription call_result \<Rightarrow> gen_result" where
  "drain loads ag sub =
     (case c_value sub of
        Inr (Generator request) \<Rightarrow>
          (let r = stream_generator loads ag (c_tasks sub) request
           in r\<lparr>g_trace := c_trace sub @ g_trace r\<rparr>)
      | Inr (Rejected error) \<Rightarrow>
          \<lparr>g_events = [error], g_raised = None, g_tasks = c_tasks sub, g_trace = c_trace sub\<rparr>
      | Inl e \<Rightarrow>
          \<lparr>g_events = [], g_raised = Some e, g_tasks = c_tasks sub, g_trace = c_trace sub\<rparr>)"

section \<open>The remote agent connection\<close>

text \<open>
  \<^verbatim>\<open>hasattr(x, 'metadata')\<close> and the value of the attribute: \<open>NoAttr\<close> for an object
  without it, \<open>Attr None\<close> for \<^verbatim>\<open>None\<close>, \<open>Attr (Some d)\<close> for a dict.
\<close>

datatype attr = NoAttr | Attr "pydict option"

text \<open>\<^verbatim>\<open>d[k] = v\<close> and \<^verbatim>\<open>d.update(e)\<close> on dicts in insertion order.\<close>

definition dict_setitem :: "pydict \<Rightarrow> string \<Rightarrow> pyval \<Rightarrow> pydict" where
  "dict_setitem d k v = AList.update k v d"

definition dict_update :: "pydict \<Rightarrow> pydict \<Rightarrow> pydict" where
  "dict_update d e = fold (\<lambda>(k, v) acc. dict_setitem acc k v) e d"

text \<open>
  \<^verbatim>\<open>merge_metadata(target, source)\<close>, on the \<^verbatim>\<open>metadata\<close> attributes of its two arguments:
  the result is the attribute of the target after the call. A dict is true when it is
  not empty; \<^verbatim>\<open>dict(**d)\<close> is a copy, the same value.
\<close>

definition truthy :: "pydict option \<Rightarrow> bool" where
  "truthy m = (case m of None \<Rightarrow> False | Some d \<Rightarrow> d \<noteq> [])"

definition dict_of :: "pydict option \<Rightarrow> pydict" where
  "dict_of m = (case m of None \<Rightarrow> [] | Some d \<Rightarrow> d)"

definition merge_metadata :: "attr \<Rightarrow> attr \<Rightarrow> attr" where
  "merge_metadata target source =
     (case target of
        NoAttr \<Rightarrow> target
      | Attr tm \<Rightarrow>
          (case source of
             NoAttr \<Rightarrow> target
           | Attr sm \<Rightarrow>
               if truthy tm \<and> truthy sm then Attr (Some (dict_update (dict_of tm) (dict_of sm)))
               else if truthy sm then Attr (Some (dict_of sm))
               else target))"

text \<open>
  Lines 68 to 73 (and again 90 to 95) of \<^verbatim>\<open>send_task\<close>: the message identifier is
  chained. \<open>fresh\<close> is the text of the identifier \<^verbatim>\<open>uuid.uuid4()\<close> returns at this
  call.
\<close>

definition chain_message_id :: "string \<Rightarrow> message \<Rightarrow> message" where
  "chain_message_id fresh m =
     (let md0 = (if \<not> truthy (m_metadata m) then [] else dict_of (m_metadata m));
          md1 =
            (case map_of md0 ''message_id'' of
               None \<Rightarrow> md0
             | Some v \<Rightarrow> dict_setitem md0 ''last_message_id'' v);
          md2 = dict_setitem md1 ''message_id'' (PyStr fresh)
      in m\<lparr>m_metadata := Some md2\<rparr>)"

text \<open>The attributes of a response's result that \<^verbatim>\<open>send_task\<close> looks for.\<close>

fun payload_metadata :: "payload \<Rightarrow> attr" where
  "payload_metadata (ResultTask t) = Attr (t_metadata t)"
| "payload_metadata (ResultStatus e) = Attr (se_metadata e)"
| "payload_metadata (ResultArtifact e) = Attr (ae_metadata e)"
| "payload_metadata ResultNone = NoAttr"

fun set_payload_metadata :: "payload \<Rightarrow> attr \<Rightarrow> payload" where
  "set_payload_metadata (ResultTask t) (Attr m) = ResultTask (t\<lparr>t_metadata := m\<rparr>)"
| "set_payload_metadata (ResultStatus e) (Attr m) = ResultStatus (e\<lparr>se_metadata := m\<rparr>)"
| "set_payload_metadata (ResultArtifact e) (Attr m) = ResultArtifact (e\<lparr>ae_metadata := m\<rparr>)"
| "set_payload_metadata r a = r"

fun payload_message :: "payload \<Rightarrow> message option" where
  "payload_message (ResultTask t) = ts_message (t_status t)"
| "payload_message (ResultStatus e) = ts_message (se_status e)"
| "payload_message r = None"

fun set_payload_message :: "payload \<Rightarrow> message \<Rightarrow> payload" where
  "set_payload_message (ResultTask t) m =
     ResultTask (t\<lparr>t_status := (t_status t)\<lparr>ts_message := Some m\<rparr>\<rparr>)"
| "set_payload_message (ResultStatus e) m =
     ResultStatus (e\<lparr>se_status := (se_status e)\<lparr>ts_message := Some m\<rparr>\<rparr>)"
| "set_payload_message r m = r"

fun is_final :: "payload \<Rightarrow> bool" where
  "is_final (ResultStatus e) = se_final e"
| "is_final r = False"

fun attr_value :: "attr \<Rightarrow> pydict option" where
  "attr_value (Attr m) = m"
| "attr_value NoAttr = None"

text \<open>
  Lines 59 to 73 (and 83 to 95): the metadata of the request is merged into the result
  and, where the result has a status with a message, the metadata of the request's
  message is merged into that message and its identifier chained. \<open>uuid4\<close> gives
  the identifiers in the order they are generated, \<open>n\<close> counts those already taken.
\<close>

definition reconcile ::
  "(nat \<Rightarrow> string) \<Rightarrow> TaskSendParams \<Rightarrow> payload \<Rightarrow> nat \<Rightarrow> payload \<times> nat" where
  "reconcile uuid4 request result n =
     (let result1 =
            set_payload_metadata result
              (merge_metadata (payload_metadata result) (Attr (p_metadata request)))
      in case payload_message result1 of
           None \<Rightarrow> (result1, n)
         | Some m \<Rightarrow>
             (let m1 = m\<lparr>m_metadata :=
                          attr_value (merge_metadata (Attr (m_metadata m))
                                        (Attr (m_metadata (p_message request))))\<rparr>;
                  m2 = chain_message_id (uuid4 n) m1
              in (set_payload_message result1 m2, Suc n)))"

record AgentCard =
  card_name :: string
  card_url :: string
  card_streaming :: bool

text \<open>
  The callback may keep a state of its own (type \<open>'s\<close>): it takes the state and
  returns the task with the new state. The client is the transport, a collaborator.
\<close>

type_synonym 's callback = "payload \<Rightarrow> AgentCard \<Rightarrow> 's \<Rightarrow> Task \<times> 's"

record client =
  cl_send_task_streaming :: "TaskSendParams \<Rightarrow> payload source"
  cl_send_task :: "TaskSendParams \<Rightarrow> exception + payload"

text \<open>
  What \<^verbatim>\<open>send_task\<close> gives: what it returns or raises, the part of the remote stream it
  has not consumed, the state of the callback and the count of identifiers generated.
\<close>

record 's send_result =
  sr_value :: "exception + payload"
  sr_rest :: "payload source"
  sr_state :: 's
  sr_uuids :: nat

definition call_back :: "'s callback option \<Rightarrow> payload \<Rightarrow> AgentCard \<Rightarrow> Task option \<Rightarrow> 's \<Rightarrow> Task option \<times> 's" where
  "call_back task_callback result agent_card task st =
     (case task_callback of
        None \<Rightarrow> (task, st)
      | Some f \<Rightarrow> (Some (fst (f result agent_card st)), snd (f result agent_card st)))"

definition task_payload :: "Task option \<Rightarrow> payload" where
  "task_payload task = (case task of None \<Rightarrow> ResultNone | Some t \<Rightarrow> ResultTask t)"

text \<open>Lines 56 to 79: the loop over the remote stream, and the return after it.\<close>

fun stream_loop ::
  "(nat \<Rightarrow> string) \<Rightarrow> AgentCard \<Rightarrow> TaskSendParams \<Rightarrow> 's callback option \<Rightarrow>
     payload source \<Rightarrow> Task option \<Rightarrow> 's \<Rightarrow> nat \<Rightarrow> 's send_result" where
  "stream_loop uuid4 agent_card request task_callback End task st n =
     \<lparr>sr_value = Inr (task_payload task), sr_rest = End, sr_state = st, sr_uuids = n\<rparr>"
| "stream_loop uuid4 agent_card request task_callback (Fails e) task st n =
     \<lparr>sr_value = Inl e, sr_rest = Fails e, sr_state = st, sr_uuids = n\<rparr>"
| "stream_loop uuid4 agent_card request task_callback (Yield response rest) task st n =
     (let result = fst (reconcile uuid4 request response n);
          n' = snd (reconcile uuid4 request response n);
          task' = fst (call_back task_callback result agent_card task st);
          st' = snd (call_back task_callback result agent_card task st)
      in if is_final result
         then \<lparr>sr_value = Inr (task_payload task'), sr_rest = rest, sr_state = st', sr_uuids = n'\<rparr>
         else stream_loop uuid4 agent_card request task_callback rest task' st' n')"

text \<open>\<^verbatim>\<open>RemoteAgentConnections.send_task\<close>, with \<^verbatim>\<open>self.card\<close> and \<^verbatim>\<open>self.agent_client\<close>.\<close>

definition send_task ::
  "(nat \<Rightarrow> string) \<Rightarrow> AgentCard \<Rightarrow> client \<Rightarrow> TaskSendParams \<Rightarrow> 's callback option \<Rightarrow>
     's \<Rightarrow> nat \<Rightarrow> 's send_result" where
  "send_task uuid4 agent_card cl request task_callback st n =
     (if card_streaming agent_card then
        (let submitted =
               ResultTask
                 \<lparr>t_id = p_id request, t_sessionId = p_sessionId request,
                  t_status = \<lparr>ts_state = SUBMITTED, ts_message = Some (p_message request)\<rparr>,
                  t_artifacts = None, t_history = Some [p_message request], t_metadata = None\<rparr>;
             st1 = snd (call_back task_callback submitted agent_card None st)
         in stream_loop uuid4 agent_card request task_callback
              (cl_send_task_streaming cl request) None st1 n)
      else
        (case cl_send_task cl request of
           Inl e \<Rightarrow> \<lparr>sr_value = Inl e, sr_rest = End, sr_state = st, sr_uuids = n\<rparr>
         | Inr response \<Rightarrow>
             (let result = fst (reconcile uuid4 request response n);
                  n' = snd (reconcile uuid4 request response n);
                  st' = snd (call_back task_callback result agent_card None st)
              in \<lparr>sr_value = Inr result, sr_rest = End, sr_state = st', sr_uuids = n'\<rparr>)))"

text \<open>
  The specification's words for the streaming path (4.4): for every response element,
  reconcile it and invoke the callback, capturing its return value as the latest known
  task. \<open>feed\<close> does that over a list of elements, whatever their final flags: it
  gives the latest task, the state of the callback and the count of identifiers
  afterwards. The loop of the source is compared with it below.
\<close>

fun feed ::
  "(nat \<Rightarrow> string) \<Rightarrow> AgentCard \<Rightarrow> TaskSendParams \<Rightarrow> 's callback option \<Rightarrow>
     payload list \<Rightarrow> Task option \<Rightarrow> 's \<Rightarrow> nat \<Rightarrow> Task option \<times> 's \<times> nat" where
  "feed uuid4 agent_card request task_callback [] task st n = (task, st, n)"
| "feed uuid4 agent_card request task_callback (x # xs) task st n =
     feed uuid4 agent_card request task_callback xs
       (fst (call_back task_callback (fst (reconcile uuid4 request x n)) agent_card task st))
       (snd (call_back task_callback (fst (reconcile uuid4 request x n)) agent_card task st))
       (snd (reconcile uuid4 request x n))"

section \<open>Facts about the Python operations\<close>

text \<open>The substring test is the library's \<open>sublist\<close>: a contiguous part of the text.\<close>

lemma str_contains_sublist: "str_contains needle hay = sublist needle hay"
  by (induction hay) (auto simp: sublist_Cons_right)

lemma map_of_dict_setitem: "map_of (dict_setitem d k v) = (map_of d)(k \<mapsto> v)"
  by (simp add: dict_setitem_def update_conv')

lemma map_of_dict_update:
  "distinct (map fst e) \<Longrightarrow> map_of (dict_update d e) = map_of d ++ map_of e"
  unfolding dict_update_def
proof (induction e arbitrary: d)
  case Nil
  then show ?case by simp
next
  case (Cons p e)
  obtain k v where p: "p = (k, v)" by (cases p)
  from Cons.prems p have k: "k \<notin> dom (map_of e)" and d: "distinct (map fst e)"
    by (auto simp: dom_map_of_conv_image_fst)
  have "map_of (fold (\<lambda>(k, v) acc. dict_setitem acc k v) (p # e) d)
        = map_of (dict_setitem d k v) ++ map_of e"
    using Cons.IH [OF d] p by simp
  also have "\<dots> = map_of d ++ map_of (p # e)"
    using k p by (auto simp: map_of_dict_setitem map_add_def fun_eq_iff domIff split: option.splits)
  finally show ?case .
qed

section \<open>The task store update: properties\<close>

text \<open>
  C4. For an identifier present in the store, \<open>update_store\<close> returns the stored task
  with its status replaced by the given status and the given artifacts appended to its
  artifact list (an absent list counts as empty, so it is created); with no artifacts
  argument (\<^verbatim>\<open>None\<close>) the artifact list is as before; the other fields of the task
  and the other entries of the store are as before. For an identifier not in the store
  the call raises (the source's \<^verbatim>\<open>ValueError\<close>, which the specification calls
  NotFoundError) and the store after the call is the store before it.
\<close>

theorem update_store_spec:
  "(\<forall>task. tasks task_id = Some task \<longrightarrow>
      (\<exists>task'. update_store tasks task_id status artifacts = (Inr task', tasks(task_id \<mapsto> task'))
         \<and> t_status task' = status
         \<and> t_artifacts task' =
             (case artifacts of
                None \<Rightarrow> t_artifacts task
              | Some arts \<Rightarrow>
                  Some ((case t_artifacts task of None \<Rightarrow> [] | Some old \<Rightarrow> old) @ arts))
         \<and> t_id task' = t_id task \<and> t_sessionId task' = t_sessionId task
         \<and> t_history task' = t_history task \<and> t_metadata task' = t_metadata task))
   \<and> (tasks task_id = None \<longrightarrow>
        update_store tasks task_id status artifacts
          = (Inl (Raised ValueError (''Task '' @ task_id @ '' not found'')), tasks))"
  by (auto simp: update_store_def Let_def split: option.splits)

theorem update_store_spec_witness:
  "(\<exists>task'.
      update_store
        (Map.empty(''t1'' \<mapsto>
           \<lparr>t_id = ''t1'', t_sessionId = ''s1'',
            t_status = \<lparr>ts_state = SUBMITTED, ts_message = None\<rparr>,
            t_artifacts = None, t_history = None, t_metadata = None\<rparr>))
        ''t1'' \<lparr>ts_state = WORKING, ts_message = None\<rparr>
        (Some [\<lparr>a_parts = [TextPart (PyStr ''hi'')], a_index = Some 0, a_append = Some False\<rparr>])
      = (Inr task',
         Map.empty(''t1'' \<mapsto> task'))
      \<and> t_status task' = \<lparr>ts_state = WORKING, ts_message = None\<rparr>
      \<and> t_artifacts task'
          = Some [\<lparr>a_parts = [TextPart (PyStr ''hi'')], a_index = Some 0, a_append = Some False\<rparr>])
   \<and> update_store
        (Map.empty(''t1'' \<mapsto>
           \<lparr>t_id = ''t1'', t_sessionId = ''s1'',
            t_status = \<lparr>ts_state = SUBMITTED, ts_message = None\<rparr>,
            t_artifacts = None, t_history = None, t_metadata = None\<rparr>))
        ''t2'' \<lparr>ts_state = WORKING, ts_message = None\<rparr> None
      = (Inl (Raised ValueError ''Task t2 not found''),
         Map.empty(''t1'' \<mapsto>
           \<lparr>t_id = ''t1'', t_sessionId = ''s1'',
            t_status = \<lparr>ts_state = SUBMITTED, ts_message = None\<rparr>,
            t_artifacts = None, t_history = None, t_metadata = None\<rparr>))"
  using
    update_store_spec [of
      "Map.empty(''t1'' \<mapsto>
         \<lparr>t_id = ''t1'', t_sessionId = ''s1'',
          t_status = \<lparr>ts_state = SUBMITTED, ts_message = None\<rparr>,
          t_artifacts = None, t_history = None, t_metadata = None\<rparr>)"
      "''t1''" "\<lparr>ts_state = WORKING, ts_message = None\<rparr>"
      "Some [\<lparr>a_parts = [TextPart (PyStr ''hi'')], a_index = Some 0, a_append = Some False\<rparr>]"]
    update_store_spec [of
      "Map.empty(''t1'' \<mapsto>
         \<lparr>t_id = ''t1'', t_sessionId = ''s1'',
          t_status = \<lparr>ts_state = SUBMITTED, ts_message = None\<rparr>,
          t_artifacts = None, t_history = None, t_metadata = None\<rparr>)"
      "''t2''" "\<lparr>ts_state = WORKING, ts_message = None\<rparr>" None]
  by auto

section \<open>Metadata reconciliation: properties\<close>

text \<open>
  C6. \<open>merge_metadata\<close>: when the target or the source has no \<^verbatim>\<open>metadata\<close> attribute
  the target is unchanged; when the source's metadata is \<^verbatim>\<open>None\<close> or empty the call
  changes nothing, so doing it twice is doing it once; when both have a mapping that
  is not empty, the target's mapping afterwards gives every key of the source the
  source's value and every other key the value the target had; when only the source
  has one, the target's mapping afterwards is a copy of the source's. The keys of a
  dict are distinct, which the third part assumes of the source.
\<close>

theorem merge_metadata_spec:
  "merge_metadata NoAttr source = NoAttr
   \<and> merge_metadata target NoAttr = target
   \<and> (\<not> truthy sm \<longrightarrow> merge_metadata target (Attr sm) = target)
   \<and> (\<not> truthy sm \<longrightarrow>
        merge_metadata (merge_metadata target (Attr sm)) (Attr sm) = merge_metadata target (Attr sm))
   \<and> (t \<noteq> [] \<and> s \<noteq> [] \<and> distinct (map fst s) \<longrightarrow>
        (\<exists>r. merge_metadata (Attr (Some t)) (Attr (Some s)) = Attr (Some r)
           \<and> (\<forall>k. map_of r k = (case map_of s k of Some v \<Rightarrow> Some v | None \<Rightarrow> map_of t k))))
   \<and> (\<not> truthy tm \<and> s \<noteq> [] \<longrightarrow> merge_metadata (Attr tm) (Attr (Some s)) = Attr (Some s))"
  apply (intro conjI impI)
       apply (simp add: merge_metadata_def)
      apply (simp add: merge_metadata_def split: attr.splits)
     apply (simp add: merge_metadata_def split: attr.splits)
    apply (simp add: merge_metadata_def split: attr.splits)
   apply (simp add: merge_metadata_def truthy_def dict_of_def map_of_dict_update map_add_def)
  apply (simp add: merge_metadata_def truthy_def dict_of_def)
  done

theorem merge_metadata_spec_witness:
  "merge_metadata (Attr (Some [(''a'', PyInt 1), (''b'', PyInt 2)])) (Attr None)
     = Attr (Some [(''a'', PyInt 1), (''b'', PyInt 2)])
   \<and> (\<exists>r. merge_metadata (Attr (Some [(''a'', PyInt 1), (''b'', PyInt 2)]))
              (Attr (Some [(''b'', PyInt 7), (''c'', PyInt 8)])) = Attr (Some r)
          \<and> map_of r ''a'' = Some (PyInt 1) \<and> map_of r ''b'' = Some (PyInt 7)
          \<and> map_of r ''c'' = Some (PyInt 8))
   \<and> merge_metadata (Attr None) (Attr (Some [(''b'', PyInt 7)])) = Attr (Some [(''b'', PyInt 7)])"
  using
    merge_metadata_spec [where target = "Attr (Some [(''a'', PyInt 1), (''b'', PyInt 2)])"
      and sm = None and t = "[(''a'', PyInt 1), (''b'', PyInt 2)]"
      and s = "[(''b'', PyInt 7), (''c'', PyInt 8)]" and tm = "Some []"]
    merge_metadata_spec [where sm = None and tm = None and s = "[(''b'', PyInt 7)]"]
  by (auto simp: truthy_def)


section \<open>Message identifier chaining: properties\<close>




lemma payload_message_set_metadata [simp]:
  "payload_message (set_payload_metadata r a) = payload_message r"
  by (cases r; cases a) simp_all







section \<open>The streaming path of the remote connection: properties\<close>

text \<open>Reconciling a result leaves its final flag as it is.\<close>

lemma is_final_set_payload_metadata [simp]:
  "is_final (set_payload_metadata r a) = is_final r"
  by (cases r; cases a) simp_all

lemma is_final_set_payload_message [simp]:
  "is_final (set_payload_message r m) = is_final r"
  by (cases r) simp_all

lemma is_final_reconcile [simp]:
  "is_final (fst (reconcile new_id request x n)) = is_final x"
  by (simp add: reconcile_def Let_def split: option.splits)

lemma stream_loop_until_final:
  "\<forall>y\<in>set pre. \<not> is_final y \<Longrightarrow> is_final x \<Longrightarrow>
     stream_loop new_id agent_card request cb (prepend pre (Yield x rest)) task st n =
       (case feed new_id agent_card request cb (pre @ [x]) task st n of
          (task', st', n') \<Rightarrow>
            \<lparr>sr_value = Inr (task_payload task'), sr_rest = rest, sr_state = st', sr_uuids = n'\<rparr>)"
  by (induction pre arbitrary: task st n) (simp_all add: Let_def)

lemma stream_loop_until_end:
  "\<forall>y\<in>set pre. \<not> is_final y \<Longrightarrow>
     stream_loop new_id agent_card request cb (prepend pre End) task st n =
       (case feed new_id agent_card request cb pre task st n of
          (task', st', n') \<Rightarrow>
            \<lparr>sr_value = Inr (task_payload task'), sr_rest = End, sr_state = st', sr_uuids = n'\<rparr>)"
  by (induction pre arbitrary: task st n) (simp_all add: Let_def)

lemma feed_append:
  "feed new_id agent_card request cb (xs @ ys) task st n =
     (case feed new_id agent_card request cb xs task st n of
        (task', st', n') \<Rightarrow> feed new_id agent_card request cb ys task' st' n')"
  by (induction xs arbitrary: task st n) simp_all

lemma feed_no_callback:
  "fst (feed new_id agent_card request None xs task st n) = task"
  by (induction xs arbitrary: task st n) (simp_all add: call_back_def)

lemma feed_last_callback:
  "feed new_id agent_card request (Some f) xs task st n = (task', st', n') \<Longrightarrow>
     fst (feed new_id agent_card request (Some f) (xs @ [x]) task st n) =
       Some (fst (f (fst (reconcile new_id request x n')) agent_card st'))"
  by (simp add: feed_append call_back_def)

text \<open>
  C8. \<open>send_task\<close> on a card that advertises streaming; \<open>st_b\<close> is the state of the
  callback after the call on the synthesized SUBMITTED task, whose return value is
  dropped. When the remote stream has a first final element, the elements after it
  are left unconsumed (\<open>sr_rest\<close>) and the callback has run on exactly the elements
  up to and including it; when the stream ends with no final element, on all of them.
  What is returned is the latest task of that run: \<^verbatim>\<open>None\<close> with no callback,
  \<^verbatim>\<open>None\<close> when no element arrived, and with a callback and a last element the
  task the callback returned on that last element, reconciled.
\<close>

theorem send_task_streaming_spec:
  assumes streaming: "card_streaming agent_card"
    and not_final: "\<forall>y\<in>set pre. \<not> is_final y"
    and submitted: "st_b = snd (call_back cb
        (ResultTask
           \<lparr>t_id = p_id request, t_sessionId = p_sessionId request,
            t_status = \<lparr>ts_state = SUBMITTED, ts_message = Some (p_message request)\<rparr>,
            t_artifacts = None, t_history = Some [p_message request], t_metadata = None\<rparr>)
        agent_card None st)"
  shows "(is_final x \<and> cl_send_task_streaming cl request = prepend pre (Yield x rest) \<longrightarrow>
          (\<exists>task' st' n'.
              feed new_id agent_card request cb (pre @ [x]) None st_b n = (task', st', n')
            \<and> send_task new_id agent_card cl request cb st n =
                \<lparr>sr_value = Inr (task_payload task'), sr_rest = rest,
                 sr_state = st', sr_uuids = n'\<rparr>))
       \<and> (cl_send_task_streaming cl request = prepend pre End \<longrightarrow>
          (\<exists>task' st' n'.
              feed new_id agent_card request cb pre None st_b n = (task', st', n')
            \<and> send_task new_id agent_card cl request cb st n =
                \<lparr>sr_value = Inr (task_payload task'), sr_rest = End,
                 sr_state = st', sr_uuids = n'\<rparr>))
       \<and> fst (feed new_id agent_card request None xs None st_b n) = None
       \<and> feed new_id agent_card request cb [] None st_b n = (None, st_b, n)
       \<and> (\<forall>f task' st' n'.
            feed new_id agent_card request (Some f) xs None st_b n = (task', st', n') \<longrightarrow>
            fst (feed new_id agent_card request (Some f) (xs @ [y]) None st_b n) =
              Some (fst (f (fst (reconcile new_id request y n')) agent_card st')))"
proof -
  have final_case:
    "\<exists>task' st' n'.
        feed new_id agent_card request cb (pre @ [x]) None st_b n = (task', st', n')
      \<and> send_task new_id agent_card cl request cb st n =
          \<lparr>sr_value = Inr (task_payload task'), sr_rest = rest, sr_state = st', sr_uuids = n'\<rparr>"
    if "is_final x \<and> cl_send_task_streaming cl request = prepend pre (Yield x rest)"
  proof -
    obtain task' st' n' where
      f: "feed new_id agent_card request cb (pre @ [x]) None st_b n = (task', st', n')"
      by (cases "feed new_id agent_card request cb (pre @ [x]) None st_b n") auto
    have "send_task new_id agent_card cl request cb st n =
            stream_loop new_id agent_card request cb (prepend pre (Yield x rest)) None st_b n"
      using streaming that submitted by (simp add: send_task_def Let_def)
    also have "\<dots> =
        \<lparr>sr_value = Inr (task_payload task'), sr_rest = rest, sr_state = st', sr_uuids = n'\<rparr>"
      using stream_loop_until_final [OF not_final, of x new_id agent_card request cb rest None st_b n]
        that f by simp
    finally show ?thesis using f by blast
  qed
  have end_case:
    "\<exists>task' st' n'.
        feed new_id agent_card request cb pre None st_b n = (task', st', n')
      \<and> send_task new_id agent_card cl request cb st n =
          \<lparr>sr_value = Inr (task_payload task'), sr_rest = End, sr_state = st', sr_uuids = n'\<rparr>"
    if "cl_send_task_streaming cl request = prepend pre End"
  proof -
    obtain task' st' n' where
      f: "feed new_id agent_card request cb pre None st_b n = (task', st', n')"
      by (cases "feed new_id agent_card request cb pre None st_b n") auto
    have "send_task new_id agent_card cl request cb st n =
            stream_loop new_id agent_card request cb (prepend pre End) None st_b n"
      using streaming that submitted by (simp add: send_task_def Let_def)
    also have "\<dots> =
        \<lparr>sr_value = Inr (task_payload task'), sr_rest = End, sr_state = st', sr_uuids = n'\<rparr>"
      using stream_loop_until_end [OF not_final, of new_id agent_card request cb None st_b n] f
      by simp
    finally show ?thesis using f by blast
  qed
  have no_callback: "fst (feed new_id agent_card request None xs None st_b n) = None"
    by (rule feed_no_callback)
  have no_element: "feed new_id agent_card request cb [] None st_b n = (None, st_b, n)"
    by simp
  have last_callback:
    "\<forall>f task' st' n'.
        feed new_id agent_card request (Some f) xs None st_b n = (task', st', n') \<longrightarrow>
        fst (feed new_id agent_card request (Some f) (xs @ [y]) None st_b n) =
          Some (fst (f (fst (reconcile new_id request y n')) agent_card st'))"
    by (intro allI impI) (rule feed_last_callback)
  show ?thesis
    using no_callback no_element last_callback
    by (intro conjI impI) (simp_all only: final_case end_case)
qed

theorem send_task_streaming_spec_witness:
  "send_task (\<lambda>k. ''u'') (\<lparr>card_name = ''remote'', card_url = ''http://remote'', card_streaming = True\<rparr>) (\<lparr>cl_send_task_streaming = (\<lambda>r. Yield (ResultStatus \<lparr>se_id = ''t1'', se_status = \<lparr>ts_state = WORKING, ts_message = None\<rparr>, se_final = False, se_metadata = None\<rparr>) (Yield (ResultStatus \<lparr>se_id = ''t1'', se_status = \<lparr>ts_state = COMPLETED, ts_message = None\<rparr>, se_final = True, se_metadata = None\<rparr>) (Yield (ResultStatus \<lparr>se_id = ''t1'', se_status = \<lparr>ts_state = INPUT_REQUIRED, ts_message = None\<rparr>, se_final = False, se_metadata = None\<rparr>) End))), cl_send_task = (\<lambda>r. Inr ResultNone)\<rparr>) (\<lparr>p_id = ''t1'', p_sessionId = ''s1'', p_message = \<lparr>m_role = ''user'', m_parts = [TextPart (PyStr ''hello'')], m_metadata = None\<rparr>, p_acceptedOutputModes = None, p_metadata = None\<rparr>) (Some (\<lambda>r c k. (\<lparr>t_id = ''t1'', t_sessionId = ''s1'', t_status = (case r of ResultStatus e \<Rightarrow> se_status e | _ \<Rightarrow> \<lparr>ts_state = SUBMITTED, ts_message = None\<rparr>), t_artifacts = None, t_history = None, t_metadata = None\<rparr>, Suc k))) (0::nat) 0 =
     \<lparr>sr_value =
        Inr (ResultTask
               \<lparr>t_id = ''t1'', t_sessionId = ''s1'',
                t_status = \<lparr>ts_state = COMPLETED, ts_message = None\<rparr>,
                t_artifacts = None, t_history = None, t_metadata = None\<rparr>),
      sr_rest = Yield (ResultStatus \<lparr>se_id = ''t1'', se_status = \<lparr>ts_state = INPUT_REQUIRED, ts_message = None\<rparr>, se_final = False, se_metadata = None\<rparr>) End, sr_state = 3, sr_uuids = 0\<rparr>"
  using send_task_streaming_spec [where agent_card = "\<lparr>card_name = ''remote'', card_url = ''http://remote'', card_streaming = True\<rparr>" and pre = "[ResultStatus \<lparr>se_id = ''t1'', se_status = \<lparr>ts_state = WORKING, ts_message = None\<rparr>, se_final = False, se_metadata = None\<rparr>]" and x = "ResultStatus \<lparr>se_id = ''t1'', se_status = \<lparr>ts_state = COMPLETED, ts_message = None\<rparr>, se_final = True, se_metadata = None\<rparr>"
      and rest = "Yield (ResultStatus \<lparr>se_id = ''t1'', se_status = \<lparr>ts_state = INPUT_REQUIRED, ts_message = None\<rparr>, se_final = False, se_metadata = None\<rparr>) End" and cl = "\<lparr>cl_send_task_streaming = (\<lambda>r. Yield (ResultStatus \<lparr>se_id = ''t1'', se_status = \<lparr>ts_state = WORKING, ts_message = None\<rparr>, se_final = False, se_metadata = None\<rparr>) (Yield (ResultStatus \<lparr>se_id = ''t1'', se_status = \<lparr>ts_state = COMPLETED, ts_message = None\<rparr>, se_final = True, se_metadata = None\<rparr>) (Yield (ResultStatus \<lparr>se_id = ''t1'', se_status = \<lparr>ts_state = INPUT_REQUIRED, ts_message = None\<rparr>, se_final = False, se_metadata = None\<rparr>) End))), cl_send_task = (\<lambda>r. Inr ResultNone)\<rparr>" and request = "\<lparr>p_id = ''t1'', p_sessionId = ''s1'', p_message = \<lparr>m_role = ''user'', m_parts = [TextPart (PyStr ''hello'')], m_metadata = None\<rparr>, p_acceptedOutputModes = None, p_metadata = None\<rparr>" and cb = "Some (\<lambda>r c k. (\<lparr>t_id = ''t1'', t_sessionId = ''s1'', t_status = (case r of ResultStatus e \<Rightarrow> se_status e | _ \<Rightarrow> \<lparr>ts_state = SUBMITTED, ts_message = None\<rparr>), t_artifacts = None, t_history = None, t_metadata = None\<rparr>, Suc k))"
      and st = "0::nat" and st_b = "Suc 0" and new_id = "\<lambda>k. ''u''" and n = 0]
  by (simp add: call_back_def reconcile_def merge_metadata_def truthy_def task_payload_def
        numeral_3_eq_3)


section \<open>The streaming pipeline: properties\<close>

lemma loop_body_not_complete:
  "\<not> is_task_complete it \<Longrightarrow>
     loop_body loads it =
       Inr \<lparr>v_is_task_complete = False, v_artifacts = None, v_task_state = WORKING,
            v_parts = [TextPart (updates it)]\<rparr>"
  by (simp add: loop_body_def)

lemma loop_body_complete:
  "is_task_complete it \<Longrightarrow>
     loop_body loads it =
       (case terminal_rule loads (content it) of
          Inl e \<Rightarrow> Inl e
        | Inr (task_state, parts) \<Rightarrow>
            (case new_Artifact parts (Some 0) (Some False) of
               Inl e \<Rightarrow> Inl e
             | Inr artifact \<Rightarrow>
                 Inr \<lparr>v_is_task_complete = True, v_artifacts = Some [artifact],
                      v_task_state = task_state, v_parts = parts\<rparr>))"
  by (simp add: loop_body_def)

lemma loop_body_complete_valid:
  "is_task_complete it \<Longrightarrow> terminal_rule loads (content it) = Inr (state, parts) \<Longrightarrow>
   list_all valid_part parts \<Longrightarrow>
     loop_body loads it =
       Inr \<lparr>v_is_task_complete = True,
            v_artifacts = Some [\<lparr>a_parts = parts, a_index = Some 0, a_append = Some False\<rparr>],
            v_task_state = state, v_parts = parts\<rparr>"
  by (simp add: loop_body_complete new_Artifact_def)

lemma loop_body_complete_invalid:
  "is_task_complete it \<Longrightarrow> terminal_rule loads (content it) = Inr (state, parts) \<Longrightarrow>
   \<not> list_all valid_part parts \<Longrightarrow>
     loop_body loads it = Inl (Raised ValidationError ''Artifact'')"
  by (simp add: loop_body_complete new_Artifact_def)

lemma loop_body_complete_parts:
  "is_task_complete it \<Longrightarrow> loop_body loads it = Inr vs \<Longrightarrow>
     \<exists>state parts. terminal_rule loads (content it) = Inr (state, parts)
       \<and> list_all valid_part parts
       \<and> vs = \<lparr>v_is_task_complete = True,
                v_artifacts = Some [\<lparr>a_parts = parts, a_index = Some 0, a_append = Some False\<rparr>],
                v_task_state = state, v_parts = parts\<rparr>"
  by (auto simp: loop_body_complete new_Artifact_def split: sum.splits if_splits)

lemma consume_all_ok:
  "\<forall>it\<in>set items. \<exists>v. loop_body loads it = Inr v \<Longrightarrow>
     consume loads (prepend items (Yield x End)) vars =
       (case loop_body loads x of Inl e \<Rightarrow> Inl e | Inr v \<Rightarrow> Inr (Some v))"
  by (induction items arbitrary: vars) (auto split: sum.splits)

lemma consume_some_fails:
  "\<exists>it\<in>set items. \<exists>e. loop_body loads it = Inl e \<Longrightarrow>
     \<exists>e. consume loads (prepend items rest) vars = Inl e"
  by (induction items arbitrary: vars) (auto split: sum.splits)

lemma consume_upstream_fails:
  "\<exists>e'. consume loads (prepend items (Fails e)) vars = Inl e'"
  by (induction items arbitrary: vars) (auto split: sum.splits)

lemma after_loop_raised_no_events:
  "g_raised (after_loop tasks request vars) = Some e \<Longrightarrow>
     g_events (after_loop tasks request vars) = []"
  by (auto simp: after_loop_def Let_def new_Message_def split: option.splits prod.splits sum.splits)

lemma try_block_raised_no_events:
  "g_raised (try_block loads ag tasks request query) = Some e \<Longrightarrow>
     g_events (try_block loads ag tasks request query) = []"
  by (auto simp: try_block_def Let_def after_loop_raised_no_events split: sum.splits)

lemma after_loop_events_no_error:
  "JSONRPCResponse i err \<notin> set (g_events (after_loop tasks request vars))"
  by (auto simp: after_loop_def Let_def new_Message_def split: option.splits prod.splits sum.splits)

lemma after_loop_tasks_raised:
  "g_raised (after_loop tasks request vars) = Some e \<Longrightarrow>
     g_tasks (after_loop tasks request vars) = tasks"
  by (auto simp: after_loop_def Let_def update_store_def new_Message_def
        split: option.splits prod.splits sum.splits if_splits)

lemma try_block_consume_raises:
  "consume loads (stream ag query (p_sessionId (r_params request))) None = Inl e \<Longrightarrow>
     g_raised (try_block loads ag tasks request query) = Some e"
  by (simp add: try_block_def Let_def)

lemma try_block_store_raises:
  "consume loads (stream ag query (p_sessionId (r_params request))) None = Inr (Some vs) \<Longrightarrow>
   tasks (p_id (r_params request)) = None \<Longrightarrow>
     \<exists>e. g_raised (try_block loads ag tasks request query) = Some e"
  by (simp add: try_block_def Let_def after_loop_def update_store_def new_Message_def)

lemma try_block_message_raises:
  "consume loads (stream ag query (p_sessionId (r_params request))) None = Inr (Some vs) \<Longrightarrow>
   \<not> list_all valid_part (v_parts vs) \<Longrightarrow>
     g_raised (try_block loads ag tasks request query) = Some (Raised ValidationError ''Message'')"
  by (simp add: try_block_def Let_def after_loop_def new_Message_def)

lemma try_block_unbound_raises:
  "consume loads (stream ag query (p_sessionId (r_params request))) None = Inr None \<Longrightarrow>
     \<exists>e. g_raised (try_block loads ag tasks request query) = Some e"
  by (simp add: try_block_def Let_def after_loop_def)

lemma try_block_tasks_raised:
  "g_raised (try_block loads ag tasks request query) = Some e \<Longrightarrow>
     g_tasks (try_block loads ag tasks request query) = tasks"
  by (auto simp: try_block_def Let_def after_loop_tasks_raised split: sum.splits)

lemma try_block_events_no_error:
  "JSONRPCResponse i err \<notin> set (g_events (try_block loads ag tasks request query))"
  by (auto simp: try_block_def Let_def after_loop_events_no_error split: sum.splits)

lemma stream_generator_when_raised:
  assumes q: "get_user_query (r_params request) = Inr query"
    and r: "g_raised (try_block loads ag tasks request query) = Some e"
  shows "g_events (stream_generator loads ag tasks request) = [JSONRPCResponse (r_id request) (InternalError ''An error occurred while streaming the response'')]
       \<and> g_raised (stream_generator loads ag tasks request) = None
       \<and> g_tasks (stream_generator loads ag tasks request) = tasks"
  using q r try_block_raised_no_events [OF r] try_block_tasks_raised [OF r]
  by (simp add: stream_generator_def Let_def)

lemma stream_generator_when_not_raised:
  assumes q: "get_user_query (r_params request) = Inr query"
    and r: "g_raised (try_block loads ag tasks request query) = None"
  shows "stream_generator loads ag tasks request = try_block loads ag tasks request query"
  using q r by (simp add: stream_generator_def Let_def)

lemma try_block_working:
  assumes "consume loads (stream ag query (p_sessionId (r_params request))) None =
             Inr (Some \<lparr>v_is_task_complete = False, v_artifacts = None, v_task_state = WORKING,
                        v_parts = [TextPart (PyStr body)]\<rparr>)"
    and "tasks (p_id (r_params request)) = Some task"
  shows "g_events (try_block loads ag tasks request query) = [SendTaskStreamingResponse (r_id request) (ResultStatus \<lparr>se_id = p_id (r_params request), se_status = \<lparr>ts_state = WORKING, ts_message = Some \<lparr>m_role = ''agent'', m_parts = [TextPart (PyStr body)], m_metadata = None\<rparr>\<rparr>, se_final = False, se_metadata = None\<rparr>)]
       \<and> g_raised (try_block loads ag tasks request query) = None"
  using assms by (simp add: try_block_def after_loop_def update_store_def new_Message_def Let_def)

lemma try_block_terminal:
  assumes "consume loads (stream ag query (p_sessionId (r_params request))) None =
             Inr (Some \<lparr>v_is_task_complete = True,
                        v_artifacts = Some [\<lparr>a_parts = parts, a_index = Some 0, a_append = Some False\<rparr>],
                        v_task_state = state, v_parts = parts\<rparr>)"
    and "list_all valid_part parts"
    and "tasks (p_id (r_params request)) = Some task"
  shows "g_events (try_block loads ag tasks request query) = [SendTaskStreamingResponse (r_id request) (ResultStatus \<lparr>se_id = p_id (r_params request), se_status = \<lparr>ts_state = state, ts_message = Some \<lparr>m_role = ''agent'', m_parts = parts, m_metadata = None\<rparr>\<rparr>, se_final = False, se_metadata = None\<rparr>),
           SendTaskStreamingResponse (r_id request) (ResultArtifact \<lparr>ae_id = p_id (r_params request), ae_artifact = \<lparr>a_parts = parts, a_index = Some 0, a_append = Some False\<rparr>, ae_metadata = None\<rparr>),
           SendTaskStreamingResponse (r_id request) (ResultStatus \<lparr>se_id = p_id (r_params request), se_status = \<lparr>ts_state = state, ts_message = None\<rparr>, se_final = True, se_metadata = None\<rparr>)]
       \<and> g_raised (try_block loads ag tasks request query) = None"
  using assms by (simp add: try_block_def after_loop_def update_store_def new_Message_def Let_def)

text \<open>
  C5. With a request whose query can be read: whatever is raised inside the \<^verbatim>\<open>try\<close>
  block, the generator yields exactly one event, the internal error response, and
  ends without raising; the store is as before. That covers an exception raised while
  consuming the upstream (by the agent's stream at any point, or by the loop body)
  and the failure of the store update for an unknown task. In every run an error
  response is the only event.
\<close>

theorem stream_generator_error_event:
  assumes q: "get_user_query (r_params request) = Inr query"
  shows "(\<forall>e. g_raised (try_block loads ag tasks request query) = Some e \<longrightarrow>
            g_events (stream_generator loads ag tasks request) = [JSONRPCResponse (r_id request) (InternalError ''An error occurred while streaming the response'')]
          \<and> g_raised (stream_generator loads ag tasks request) = None
          \<and> g_tasks (stream_generator loads ag tasks request) = tasks)
       \<and> (\<forall>e. consume loads (stream ag query (p_sessionId (r_params request))) None = Inl e \<longrightarrow>
            g_events (stream_generator loads ag tasks request) = [JSONRPCResponse (r_id request) (InternalError ''An error occurred while streaming the response'')])
       \<and> (\<forall>items e. stream ag query (p_sessionId (r_params request)) = prepend items (Fails e) \<longrightarrow>
            g_events (stream_generator loads ag tasks request) = [JSONRPCResponse (r_id request) (InternalError ''An error occurred while streaming the response'')])
       \<and> (\<forall>vs. consume loads (stream ag query (p_sessionId (r_params request))) None = Inr (Some vs)
              \<and> tasks (p_id (r_params request)) = None \<longrightarrow>
            g_events (stream_generator loads ag tasks request) = [JSONRPCResponse (r_id request) (InternalError ''An error occurred while streaming the response'')])
       \<and> (\<forall>i err. JSONRPCResponse i err \<in> set (g_events (stream_generator loads ag tasks request)) \<longrightarrow>
            g_events (stream_generator loads ag tasks request) = [JSONRPCResponse (r_id request) (InternalError ''An error occurred while streaming the response'')])"
proof -
  let ?gen = "stream_generator loads ag tasks request"
  let ?blk = "try_block loads ag tasks request query"
  have raised: "g_events ?gen = [JSONRPCResponse (r_id request) (InternalError ''An error occurred while streaming the response'')] \<and> g_raised ?gen = None \<and> g_tasks ?gen = tasks"
    if "g_raised ?blk = Some e" for e
    using stream_generator_when_raised [OF q that] .
  have consuming: "g_events ?gen = [JSONRPCResponse (r_id request) (InternalError ''An error occurred while streaming the response'')]"
    if "consume loads (stream ag query (p_sessionId (r_params request))) None = Inl e" for e
    using raised [OF try_block_consume_raises [OF that]] by simp
  have upstream: "g_events ?gen = [JSONRPCResponse (r_id request) (InternalError ''An error occurred while streaming the response'')]"
    if up: "stream ag query (p_sessionId (r_params request)) = prepend items (Fails e)" for items e
  proof -
    obtain e' where
      "consume loads (stream ag query (p_sessionId (r_params request))) None = Inl e'"
      using consume_upstream_fails [of loads items e None] by (auto simp: up)
    then show ?thesis by (rule consuming)
  qed
  have persisting: "g_events ?gen = [JSONRPCResponse (r_id request) (InternalError ''An error occurred while streaming the response'')]"
    if absent: "consume loads (stream ag query (p_sessionId (r_params request))) None = Inr (Some vs)
        \<and> tasks (p_id (r_params request)) = None" for vs
  proof -
    obtain e where "g_raised ?blk = Some e"
      using try_block_store_raises [of loads ag query request vs tasks] absent by auto
    then show ?thesis using raised by simp
  qed
  have alone: "g_events ?gen = [JSONRPCResponse (r_id request) (InternalError ''An error occurred while streaming the response'')]"
    if "JSONRPCResponse i err \<in> set (g_events ?gen)" for i err
  proof (cases "g_raised ?blk")
    case None
    then have "?gen = ?blk" by (rule stream_generator_when_not_raised [OF q])
    with that show ?thesis using try_block_events_no_error by metis
  next
    case (Some e)
    then show ?thesis using raised by simp
  qed
  show ?thesis
    using raised consuming upstream persisting alone by blast
qed

theorem stream_generator_error_event_witness:
  "g_events (stream_generator Map.empty (\<lparr>stream = (\<lambda>q s. Yield (\<lparr>is_task_complete = False, updates = PyStr ''step 1'', content = PyNone\<rparr>) (Fails (Raised OtherException ''boom''))), invoke = (\<lambda>q s. Inr ''ok''), SUPPORTED_CONTENT_TYPES = [''text'']\<rparr>) (Map.empty(''t1'' \<mapsto> \<lparr>t_id = ''t1'', t_sessionId = ''s1'', t_status = \<lparr>ts_state = SUBMITTED, ts_message = None\<rparr>, t_artifacts = None, t_history = None, t_metadata = None\<rparr>)) (\<lparr>r_id = ''r1'', r_params = \<lparr>p_id = ''t1'', p_sessionId = ''s1'', p_message = \<lparr>m_role = ''user'', m_parts = [TextPart (PyStr ''hello'')], m_metadata = None\<rparr>, p_acceptedOutputModes = None, p_metadata = None\<rparr>\<rparr>)) = [JSONRPCResponse ''r1'' (InternalError ''An error occurred while streaming the response'')]
   \<and> g_events (stream_generator Map.empty (\<lparr>stream = (\<lambda>q s. Yield (\<lparr>is_task_complete = True, updates = PyNone, content = PyStr ''done''\<rparr>) End), invoke = (\<lambda>q s. Inr ''ok''), SUPPORTED_CONTENT_TYPES = [''text'']\<rparr>) Map.empty (\<lparr>r_id = ''r1'', r_params = \<lparr>p_id = ''t1'', p_sessionId = ''s1'', p_message = \<lparr>m_role = ''user'', m_parts = [TextPart (PyStr ''hello'')], m_metadata = None\<rparr>, p_acceptedOutputModes = None, p_metadata = None\<rparr>\<rparr>)) = [JSONRPCResponse ''r1'' (InternalError ''An error occurred while streaming the response'')]"
proof -
  have q: "get_user_query (r_params (\<lparr>r_id = ''r1'', r_params = \<lparr>p_id = ''t1'', p_sessionId = ''s1'', p_message = \<lparr>m_role = ''user'', m_parts = [TextPart (PyStr ''hello'')], m_metadata = None\<rparr>, p_acceptedOutputModes = None, p_metadata = None\<rparr>\<rparr>)) = Inr (PyStr ''hello'')"
    by (simp add: get_user_query_def)
  have a: "g_events (stream_generator Map.empty (\<lparr>stream = (\<lambda>q s. Yield (\<lparr>is_task_complete = False, updates = PyStr ''step 1'', content = PyNone\<rparr>) (Fails (Raised OtherException ''boom''))), invoke = (\<lambda>q s. Inr ''ok''), SUPPORTED_CONTENT_TYPES = [''text'']\<rparr>) (Map.empty(''t1'' \<mapsto> \<lparr>t_id = ''t1'', t_sessionId = ''s1'', t_status = \<lparr>ts_state = SUBMITTED, ts_message = None\<rparr>, t_artifacts = None, t_history = None, t_metadata = None\<rparr>)) (\<lparr>r_id = ''r1'', r_params = \<lparr>p_id = ''t1'', p_sessionId = ''s1'', p_message = \<lparr>m_role = ''user'', m_parts = [TextPart (PyStr ''hello'')], m_metadata = None\<rparr>, p_acceptedOutputModes = None, p_metadata = None\<rparr>\<rparr>)) = [JSONRPCResponse ''r1'' (InternalError ''An error occurred while streaming the response'')]"
    using stream_generator_error_event [OF q, where ag = "\<lparr>stream = (\<lambda>q s. Yield (\<lparr>is_task_complete = False, updates = PyStr ''step 1'', content = PyNone\<rparr>) (Fails (Raised OtherException ''boom''))), invoke = (\<lambda>q s. Inr ''ok''), SUPPORTED_CONTENT_TYPES = [''text'']\<rparr>" and loads = Map.empty
        and tasks = "(Map.empty(''t1'' \<mapsto> \<lparr>t_id = ''t1'', t_sessionId = ''s1'', t_status = \<lparr>ts_state = SUBMITTED, ts_message = None\<rparr>, t_artifacts = None, t_history = None, t_metadata = None\<rparr>))",
        THEN conjunct2, THEN conjunct2, THEN conjunct1, rule_format,
        of "[\<lparr>is_task_complete = False, updates = PyStr ''step 1'', content = PyNone\<rparr>]" "Raised OtherException ''boom''"]
    by simp
  have b: "g_events (stream_generator Map.empty (\<lparr>stream = (\<lambda>q s. Yield (\<lparr>is_task_complete = True, updates = PyNone, content = PyStr ''done''\<rparr>) End), invoke = (\<lambda>q s. Inr ''ok''), SUPPORTED_CONTENT_TYPES = [''text'']\<rparr>) Map.empty (\<lparr>r_id = ''r1'', r_params = \<lparr>p_id = ''t1'', p_sessionId = ''s1'', p_message = \<lparr>m_role = ''user'', m_parts = [TextPart (PyStr ''hello'')], m_metadata = None\<rparr>, p_acceptedOutputModes = None, p_metadata = None\<rparr>\<rparr>)) = [JSONRPCResponse ''r1'' (InternalError ''An error occurred while streaming the response'')]"
    using stream_generator_error_event [OF q, where ag = "\<lparr>stream = (\<lambda>q s. Yield (\<lparr>is_task_complete = True, updates = PyNone, content = PyStr ''done''\<rparr>) End), invoke = (\<lambda>q s. Inr ''ok''), SUPPORTED_CONTENT_TYPES = [''text'']\<rparr>" and loads = Map.empty
        and tasks = Map.empty,
        THEN conjunct2, THEN conjunct2, THEN conjunct2, THEN conjunct1, rule_format,
        of "\<lparr>v_is_task_complete = True,
             v_artifacts = Some [\<lparr>a_parts = [TextPart (PyStr ''done'')], a_index = Some 0, a_append = Some False\<rparr>],
             v_task_state = COMPLETED, v_parts = [TextPart (PyStr ''done'')]\<rparr>"]
    by (simp add: loop_body_def terminal_rule_def new_Artifact_def)
  from a b show ?thesis by (rule conjI)
qed

text \<open>
  C10. With a request whose query can be read: when the upstream yields at least one
  update, none of them complete, and then ends, the generator yields exactly one
  event and ends without raising. With the task in the store and a last update whose
  \<^verbatim>\<open>updates\<close> is a text, as the agent's interface has it, that event is the WORKING
  status event (not final) built from the last update; with a last update whose
  \<^verbatim>\<open>updates\<close> is not a text the message cannot be built and the event is the internal
  error response. When the upstream yields nothing, the generator yields the internal
  error response alone.
\<close>

theorem stream_generator_without_terminal_update:
  assumes q: "get_user_query (r_params request) = Inr query"
  shows "(stream ag query (p_sessionId (r_params request)) = prepend items (Yield it End)
          \<and> (\<forall>x\<in>set items. \<not> is_task_complete x) \<and> \<not> is_task_complete it
          \<and> updates it = PyStr body
          \<and> tasks (p_id (r_params request)) = Some task \<longrightarrow>
            g_events (stream_generator loads ag tasks request) = [SendTaskStreamingResponse (r_id request) (ResultStatus \<lparr>se_id = p_id (r_params request), se_status = \<lparr>ts_state = WORKING, ts_message = Some \<lparr>m_role = ''agent'', m_parts = [TextPart (PyStr body)], m_metadata = None\<rparr>\<rparr>, se_final = False, se_metadata = None\<rparr>)]
          \<and> g_raised (stream_generator loads ag tasks request) = None)
       \<and> (stream ag query (p_sessionId (r_params request)) = prepend items (Yield it End)
          \<and> (\<forall>x\<in>set items. \<not> is_task_complete x) \<and> \<not> is_task_complete it
          \<and> (\<forall>s. updates it \<noteq> PyStr s) \<longrightarrow>
            g_events (stream_generator loads ag tasks request) = [JSONRPCResponse (r_id request) (InternalError ''An error occurred while streaming the response'')]
          \<and> g_raised (stream_generator loads ag tasks request) = None)
       \<and> (stream ag query (p_sessionId (r_params request)) = End \<longrightarrow>
            g_events (stream_generator loads ag tasks request) = [JSONRPCResponse (r_id request) (InternalError ''An error occurred while streaming the response'')]
          \<and> g_raised (stream_generator loads ag tasks request) = None)"
proof -
  let ?gen = "stream_generator loads ag tasks request"
  let ?blk = "try_block loads ag tasks request query"
  have consumed: "consume loads (stream ag query (p_sessionId (r_params request))) None =
        Inr (Some \<lparr>v_is_task_complete = False, v_artifacts = None, v_task_state = WORKING,
                   v_parts = [TextPart (updates it)]\<rparr>)"
    if h: "stream ag query (p_sessionId (r_params request)) = prepend items (Yield it End)
          \<and> (\<forall>x\<in>set items. \<not> is_task_complete x) \<and> \<not> is_task_complete it"
  proof -
    from h have "\<forall>x\<in>set items. \<exists>v. loop_body loads x = Inr v"
      by (simp add: loop_body_not_complete)
    then show ?thesis
      using h consume_all_ok [of items loads it None] by (simp add: loop_body_not_complete)
  qed
  have working: "g_events ?gen = [SendTaskStreamingResponse (r_id request) (ResultStatus \<lparr>se_id = p_id (r_params request), se_status = \<lparr>ts_state = WORKING, ts_message = Some \<lparr>m_role = ''agent'', m_parts = [TextPart (PyStr body)], m_metadata = None\<rparr>\<rparr>, se_final = False, se_metadata = None\<rparr>)] \<and> g_raised ?gen = None"
    if h: "stream ag query (p_sessionId (r_params request)) = prepend items (Yield it End)
          \<and> (\<forall>x\<in>set items. \<not> is_task_complete x) \<and> \<not> is_task_complete it
          \<and> updates it = PyStr body
          \<and> tasks (p_id (r_params request)) = Some task"
  proof -
    have "consume loads (stream ag query (p_sessionId (r_params request))) None =
        Inr (Some \<lparr>v_is_task_complete = False, v_artifacts = None, v_task_state = WORKING,
                   v_parts = [TextPart (PyStr body)]\<rparr>)"
      using consumed h by simp
    then have t: "g_events ?blk = [SendTaskStreamingResponse (r_id request) (ResultStatus \<lparr>se_id = p_id (r_params request), se_status = \<lparr>ts_state = WORKING, ts_message = Some \<lparr>m_role = ''agent'', m_parts = [TextPart (PyStr body)], m_metadata = None\<rparr>\<rparr>, se_final = False, se_metadata = None\<rparr>)] \<and> g_raised ?blk = None"
      using h try_block_working by blast
    then have "?gen = ?blk" using stream_generator_when_not_raised [OF q] by blast
    with t show ?thesis by simp
  qed
  have not_text: "g_events ?gen = [JSONRPCResponse (r_id request) (InternalError ''An error occurred while streaming the response'')] \<and> g_raised ?gen = None"
    if h: "stream ag query (p_sessionId (r_params request)) = prepend items (Yield it End)
          \<and> (\<forall>x\<in>set items. \<not> is_task_complete x) \<and> \<not> is_task_complete it
          \<and> (\<forall>s. updates it \<noteq> PyStr s)"
  proof -
    from h have "\<not> valid_part (TextPart (updates it))"
      by (cases "updates it") simp_all
    then have "g_raised ?blk = Some (Raised ValidationError ''Message'')"
      using consumed h
        try_block_message_raises [of loads ag query request
          "\<lparr>v_is_task_complete = False, v_artifacts = None, v_task_state = WORKING,
            v_parts = [TextPart (updates it)]\<rparr>" tasks]
      by simp
    then show ?thesis using stream_generator_when_raised [OF q] by blast
  qed
  have empty: "g_events ?gen = [JSONRPCResponse (r_id request) (InternalError ''An error occurred while streaming the response'')] \<and> g_raised ?gen = None"
    if h: "stream ag query (p_sessionId (r_params request)) = End"
  proof -
    have "consume loads (stream ag query (p_sessionId (r_params request))) None = Inr None"
      using h by simp
    then obtain e where "g_raised ?blk = Some e"
      using try_block_unbound_raises by blast
    then show ?thesis using stream_generator_when_raised [OF q] by blast
  qed
  show ?thesis using working not_text empty by blast
qed

theorem stream_generator_without_terminal_update_witness:
  "g_events (stream_generator Map.empty (\<lparr>stream = (\<lambda>q s. Yield (\<lparr>is_task_complete = False, updates = PyStr ''step 1'', content = PyNone\<rparr>) (Yield (\<lparr>is_task_complete = False, updates = PyStr ''step 2'', content = PyNone\<rparr>) (Yield (\<lparr>is_task_complete = False, updates = PyStr ''step 3'', content = PyNone\<rparr>) End))), invoke = (\<lambda>q s. Inr ''ok''), SUPPORTED_CONTENT_TYPES = [''text'']\<rparr>) (Map.empty(''t1'' \<mapsto> \<lparr>t_id = ''t1'', t_sessionId = ''s1'', t_status = \<lparr>ts_state = SUBMITTED, ts_message = None\<rparr>, t_artifacts = None, t_history = None, t_metadata = None\<rparr>)) (\<lparr>r_id = ''r1'', r_params = \<lparr>p_id = ''t1'', p_sessionId = ''s1'', p_message = \<lparr>m_role = ''user'', m_parts = [TextPart (PyStr ''hello'')], m_metadata = None\<rparr>, p_acceptedOutputModes = None, p_metadata = None\<rparr>\<rparr>)) = [SendTaskStreamingResponse ''r1'' (ResultStatus \<lparr>se_id = ''t1'', se_status = \<lparr>ts_state = WORKING, ts_message = Some \<lparr>m_role = ''agent'', m_parts = [TextPart (PyStr ''step 3'')], m_metadata = None\<rparr>\<rparr>, se_final = False, se_metadata = None\<rparr>)]
   \<and> g_events (stream_generator Map.empty (\<lparr>stream = (\<lambda>q s. Yield (\<lparr>is_task_complete = False, updates = PyStr ''step 1'', content = PyNone\<rparr>) (Yield (\<lparr>is_task_complete = False, updates = PyNone, content = PyNone\<rparr>) End)), invoke = (\<lambda>q s. Inr ''ok''), SUPPORTED_CONTENT_TYPES = [''text'']\<rparr>) (Map.empty(''t1'' \<mapsto> \<lparr>t_id = ''t1'', t_sessionId = ''s1'', t_status = \<lparr>ts_state = SUBMITTED, ts_message = None\<rparr>, t_artifacts = None, t_history = None, t_metadata = None\<rparr>)) (\<lparr>r_id = ''r1'', r_params = \<lparr>p_id = ''t1'', p_sessionId = ''s1'', p_message = \<lparr>m_role = ''user'', m_parts = [TextPart (PyStr ''hello'')], m_metadata = None\<rparr>, p_acceptedOutputModes = None, p_metadata = None\<rparr>\<rparr>)) = [JSONRPCResponse ''r1'' (InternalError ''An error occurred while streaming the response'')]
   \<and> g_events (stream_generator Map.empty (\<lparr>stream = (\<lambda>q s. End), invoke = (\<lambda>q s. Inr ''ok''), SUPPORTED_CONTENT_TYPES = [''text'']\<rparr>) (Map.empty(''t1'' \<mapsto> \<lparr>t_id = ''t1'', t_sessionId = ''s1'', t_status = \<lparr>ts_state = SUBMITTED, ts_message = None\<rparr>, t_artifacts = None, t_history = None, t_metadata = None\<rparr>)) (\<lparr>r_id = ''r1'', r_params = \<lparr>p_id = ''t1'', p_sessionId = ''s1'', p_message = \<lparr>m_role = ''user'', m_parts = [TextPart (PyStr ''hello'')], m_metadata = None\<rparr>, p_acceptedOutputModes = None, p_metadata = None\<rparr>\<rparr>)) = [JSONRPCResponse ''r1'' (InternalError ''An error occurred while streaming the response'')]"
proof -
  have q: "get_user_query (r_params (\<lparr>r_id = ''r1'', r_params = \<lparr>p_id = ''t1'', p_sessionId = ''s1'', p_message = \<lparr>m_role = ''user'', m_parts = [TextPart (PyStr ''hello'')], m_metadata = None\<rparr>, p_acceptedOutputModes = None, p_metadata = None\<rparr>\<rparr>)) = Inr (PyStr ''hello'')"
    by (simp add: get_user_query_def)
  have a: "g_events (stream_generator Map.empty (\<lparr>stream = (\<lambda>q s. Yield (\<lparr>is_task_complete = False, updates = PyStr ''step 1'', content = PyNone\<rparr>) (Yield (\<lparr>is_task_complete = False, updates = PyStr ''step 2'', content = PyNone\<rparr>) (Yield (\<lparr>is_task_complete = False, updates = PyStr ''step 3'', content = PyNone\<rparr>) End))), invoke = (\<lambda>q s. Inr ''ok''), SUPPORTED_CONTENT_TYPES = [''text'']\<rparr>) (Map.empty(''t1'' \<mapsto> \<lparr>t_id = ''t1'', t_sessionId = ''s1'', t_status = \<lparr>ts_state = SUBMITTED, ts_message = None\<rparr>, t_artifacts = None, t_history = None, t_metadata = None\<rparr>)) (\<lparr>r_id = ''r1'', r_params = \<lparr>p_id = ''t1'', p_sessionId = ''s1'', p_message = \<lparr>m_role = ''user'', m_parts = [TextPart (PyStr ''hello'')], m_metadata = None\<rparr>, p_acceptedOutputModes = None, p_metadata = None\<rparr>\<rparr>)) = [SendTaskStreamingResponse ''r1'' (ResultStatus \<lparr>se_id = ''t1'', se_status = \<lparr>ts_state = WORKING, ts_message = Some \<lparr>m_role = ''agent'', m_parts = [TextPart (PyStr ''step 3'')], m_metadata = None\<rparr>\<rparr>, se_final = False, se_metadata = None\<rparr>)]"
    using stream_generator_without_terminal_update [OF q, where ag = "\<lparr>stream = (\<lambda>q s. Yield (\<lparr>is_task_complete = False, updates = PyStr ''step 1'', content = PyNone\<rparr>) (Yield (\<lparr>is_task_complete = False, updates = PyStr ''step 2'', content = PyNone\<rparr>) (Yield (\<lparr>is_task_complete = False, updates = PyStr ''step 3'', content = PyNone\<rparr>) End))), invoke = (\<lambda>q s. Inr ''ok''), SUPPORTED_CONTENT_TYPES = [''text'']\<rparr>"
        and loads = Map.empty and tasks = "(Map.empty(''t1'' \<mapsto> \<lparr>t_id = ''t1'', t_sessionId = ''s1'', t_status = \<lparr>ts_state = SUBMITTED, ts_message = None\<rparr>, t_artifacts = None, t_history = None, t_metadata = None\<rparr>))" and items = "[\<lparr>is_task_complete = False, updates = PyStr ''step 1'', content = PyNone\<rparr>, \<lparr>is_task_complete = False, updates = PyStr ''step 2'', content = PyNone\<rparr>]"
        and it = "\<lparr>is_task_complete = False, updates = PyStr ''step 3'', content = PyNone\<rparr>" and body = "''step 3''" and task = "\<lparr>t_id = ''t1'', t_sessionId = ''s1'', t_status = \<lparr>ts_state = SUBMITTED, ts_message = None\<rparr>, t_artifacts = None, t_history = None, t_metadata = None\<rparr>", THEN conjunct1]
    by simp
  have b: "g_events (stream_generator Map.empty (\<lparr>stream = (\<lambda>q s. Yield (\<lparr>is_task_complete = False, updates = PyStr ''step 1'', content = PyNone\<rparr>) (Yield (\<lparr>is_task_complete = False, updates = PyNone, content = PyNone\<rparr>) End)), invoke = (\<lambda>q s. Inr ''ok''), SUPPORTED_CONTENT_TYPES = [''text'']\<rparr>) (Map.empty(''t1'' \<mapsto> \<lparr>t_id = ''t1'', t_sessionId = ''s1'', t_status = \<lparr>ts_state = SUBMITTED, ts_message = None\<rparr>, t_artifacts = None, t_history = None, t_metadata = None\<rparr>)) (\<lparr>r_id = ''r1'', r_params = \<lparr>p_id = ''t1'', p_sessionId = ''s1'', p_message = \<lparr>m_role = ''user'', m_parts = [TextPart (PyStr ''hello'')], m_metadata = None\<rparr>, p_acceptedOutputModes = None, p_metadata = None\<rparr>\<rparr>)) = [JSONRPCResponse ''r1'' (InternalError ''An error occurred while streaming the response'')]"
    using stream_generator_without_terminal_update [OF q, where ag = "\<lparr>stream = (\<lambda>q s. Yield (\<lparr>is_task_complete = False, updates = PyStr ''step 1'', content = PyNone\<rparr>) (Yield (\<lparr>is_task_complete = False, updates = PyNone, content = PyNone\<rparr>) End)), invoke = (\<lambda>q s. Inr ''ok''), SUPPORTED_CONTENT_TYPES = [''text'']\<rparr>"
        and loads = Map.empty and tasks = "(Map.empty(''t1'' \<mapsto> \<lparr>t_id = ''t1'', t_sessionId = ''s1'', t_status = \<lparr>ts_state = SUBMITTED, ts_message = None\<rparr>, t_artifacts = None, t_history = None, t_metadata = None\<rparr>))" and items = "[\<lparr>is_task_complete = False, updates = PyStr ''step 1'', content = PyNone\<rparr>]"
        and it = "\<lparr>is_task_complete = False, updates = PyNone, content = PyNone\<rparr>", THEN conjunct2, THEN conjunct1]
    by simp
  have c: "g_events (stream_generator Map.empty (\<lparr>stream = (\<lambda>q s. End), invoke = (\<lambda>q s. Inr ''ok''), SUPPORTED_CONTENT_TYPES = [''text'']\<rparr>) (Map.empty(''t1'' \<mapsto> \<lparr>t_id = ''t1'', t_sessionId = ''s1'', t_status = \<lparr>ts_state = SUBMITTED, ts_message = None\<rparr>, t_artifacts = None, t_history = None, t_metadata = None\<rparr>)) (\<lparr>r_id = ''r1'', r_params = \<lparr>p_id = ''t1'', p_sessionId = ''s1'', p_message = \<lparr>m_role = ''user'', m_parts = [TextPart (PyStr ''hello'')], m_metadata = None\<rparr>, p_acceptedOutputModes = None, p_metadata = None\<rparr>\<rparr>)) = [JSONRPCResponse ''r1'' (InternalError ''An error occurred while streaming the response'')]"
    using stream_generator_without_terminal_update [OF q, where ag = "\<lparr>stream = (\<lambda>q s. End), invoke = (\<lambda>q s. Inr ''ok''), SUPPORTED_CONTENT_TYPES = [''text'']\<rparr>"
        and loads = Map.empty and tasks = "(Map.empty(''t1'' \<mapsto> \<lparr>t_id = ''t1'', t_sessionId = ''s1'', t_status = \<lparr>ts_state = SUBMITTED, ts_message = None\<rparr>, t_artifacts = None, t_history = None, t_metadata = None\<rparr>))", THEN conjunct2, THEN conjunct2]
    by simp
  from a b c show ?thesis by (intro conjI)
qed

text \<open>
  C3. With a request whose query can be read and an upstream that ends after a last
  update that is complete: the events are either the internal error response alone,
  or, in this order, the status event of the terminal status (not final, with the
  message), the artifact event of the artifact with the same parts, and the final
  status event (final flag set, no message), which is last. The second case is the
  one where no pass of the loop raises, the parts of the last update fit their types
  and the task is in the store.
\<close>

theorem stream_generator_event_order:
  assumes q: "get_user_query (r_params request) = Inr query"
    and up: "stream ag query (p_sessionId (r_params request)) = prepend items (Yield it End)"
    and complete: "is_task_complete it"
  shows "(g_events (stream_generator loads ag tasks request) = [JSONRPCResponse (r_id request) (InternalError ''An error occurred while streaming the response'')]
          \<or> (\<exists>state parts. terminal_rule loads (content it) = Inr (state, parts)
                \<and> list_all valid_part parts
                \<and> g_events (stream_generator loads ag tasks request) = [SendTaskStreamingResponse (r_id request) (ResultStatus \<lparr>se_id = p_id (r_params request), se_status = \<lparr>ts_state = state, ts_message = Some \<lparr>m_role = ''agent'', m_parts = parts, m_metadata = None\<rparr>\<rparr>, se_final = False, se_metadata = None\<rparr>),
                     SendTaskStreamingResponse (r_id request) (ResultArtifact \<lparr>ae_id = p_id (r_params request), ae_artifact = \<lparr>a_parts = parts, a_index = Some 0, a_append = Some False\<rparr>, ae_metadata = None\<rparr>),
                     SendTaskStreamingResponse (r_id request) (ResultStatus \<lparr>se_id = p_id (r_params request), se_status = \<lparr>ts_state = state, ts_message = None\<rparr>, se_final = True, se_metadata = None\<rparr>)]))
       \<and> ((\<forall>x\<in>set items. \<exists>v. loop_body loads x = Inr v)
            \<and> terminal_rule loads (content it) = Inr (state, parts)
            \<and> list_all valid_part parts
            \<and> tasks (p_id (r_params request)) = Some task \<longrightarrow>
            g_events (stream_generator loads ag tasks request) = [SendTaskStreamingResponse (r_id request) (ResultStatus \<lparr>se_id = p_id (r_params request), se_status = \<lparr>ts_state = state, ts_message = Some \<lparr>m_role = ''agent'', m_parts = parts, m_metadata = None\<rparr>\<rparr>, se_final = False, se_metadata = None\<rparr>),
                     SendTaskStreamingResponse (r_id request) (ResultArtifact \<lparr>ae_id = p_id (r_params request), ae_artifact = \<lparr>a_parts = parts, a_index = Some 0, a_append = Some False\<rparr>, ae_metadata = None\<rparr>),
                     SendTaskStreamingResponse (r_id request) (ResultStatus \<lparr>se_id = p_id (r_params request), se_status = \<lparr>ts_state = state, ts_message = None\<rparr>, se_final = True, se_metadata = None\<rparr>)])"
proof -
  let ?gen = "stream_generator loads ag tasks request"
  let ?blk = "try_block loads ag tasks request query"
  have ok: "g_events ?gen = [SendTaskStreamingResponse (r_id request) (ResultStatus \<lparr>se_id = p_id (r_params request), se_status = \<lparr>ts_state = state, ts_message = Some \<lparr>m_role = ''agent'', m_parts = parts, m_metadata = None\<rparr>\<rparr>, se_final = False, se_metadata = None\<rparr>),
                     SendTaskStreamingResponse (r_id request) (ResultArtifact \<lparr>ae_id = p_id (r_params request), ae_artifact = \<lparr>a_parts = parts, a_index = Some 0, a_append = Some False\<rparr>, ae_metadata = None\<rparr>),
                     SendTaskStreamingResponse (r_id request) (ResultStatus \<lparr>se_id = p_id (r_params request), se_status = \<lparr>ts_state = state, ts_message = None\<rparr>, se_final = True, se_metadata = None\<rparr>)]"
    if h: "(\<forall>x\<in>set items. \<exists>v. loop_body loads x = Inr v)
            \<and> terminal_rule loads (content it) = Inr (state, parts)
            \<and> list_all valid_part parts
            \<and> tasks (p_id (r_params request)) = Some task" for state parts task
  proof -
    have "consume loads (stream ag query (p_sessionId (r_params request))) None =
        Inr (Some \<lparr>v_is_task_complete = True,
                   v_artifacts = Some [\<lparr>a_parts = parts, a_index = Some 0, a_append = Some False\<rparr>],
                   v_task_state = state, v_parts = parts\<rparr>)"
      using h up complete consume_all_ok [of items loads it None]
      by (simp add: loop_body_complete_valid)
    then have t: "g_events ?blk = [SendTaskStreamingResponse (r_id request) (ResultStatus \<lparr>se_id = p_id (r_params request), se_status = \<lparr>ts_state = state, ts_message = Some \<lparr>m_role = ''agent'', m_parts = parts, m_metadata = None\<rparr>\<rparr>, se_final = False, se_metadata = None\<rparr>),
                     SendTaskStreamingResponse (r_id request) (ResultArtifact \<lparr>ae_id = p_id (r_params request), ae_artifact = \<lparr>a_parts = parts, a_index = Some 0, a_append = Some False\<rparr>, ae_metadata = None\<rparr>),
                     SendTaskStreamingResponse (r_id request) (ResultStatus \<lparr>se_id = p_id (r_params request), se_status = \<lparr>ts_state = state, ts_message = None\<rparr>, se_final = True, se_metadata = None\<rparr>)] \<and> g_raised ?blk = None"
      using h try_block_terminal by blast
    then have "?gen = ?blk" using stream_generator_when_not_raised [OF q] by blast
    with t show ?thesis by simp
  qed
  have cases: "g_events ?gen = [JSONRPCResponse (r_id request) (InternalError ''An error occurred while streaming the response'')]
          \<or> (\<exists>state parts. terminal_rule loads (content it) = Inr (state, parts)
                \<and> list_all valid_part parts
                \<and> g_events ?gen = [SendTaskStreamingResponse (r_id request) (ResultStatus \<lparr>se_id = p_id (r_params request), se_status = \<lparr>ts_state = state, ts_message = Some \<lparr>m_role = ''agent'', m_parts = parts, m_metadata = None\<rparr>\<rparr>, se_final = False, se_metadata = None\<rparr>),
                     SendTaskStreamingResponse (r_id request) (ResultArtifact \<lparr>ae_id = p_id (r_params request), ae_artifact = \<lparr>a_parts = parts, a_index = Some 0, a_append = Some False\<rparr>, ae_metadata = None\<rparr>),
                     SendTaskStreamingResponse (r_id request) (ResultStatus \<lparr>se_id = p_id (r_params request), se_status = \<lparr>ts_state = state, ts_message = None\<rparr>, se_final = True, se_metadata = None\<rparr>)])"
  proof (cases "g_raised ?blk")
    case (Some e)
    then show ?thesis using stream_generator_when_raised [OF q] by blast
  next
    case None
    have all_ok: "\<forall>x\<in>set items. \<exists>v. loop_body loads x = Inr v"
    proof (rule ccontr)
      assume "\<not> ?thesis"
      then have "\<exists>x\<in>set items. \<exists>e. loop_body loads x = Inl e"
        by (metis sum.exhaust)
      then obtain e where "consume loads (prepend items (Yield it End)) None = Inl e"
        using consume_some_fails by blast
      then have "g_raised ?blk = Some e"
        using up try_block_consume_raises [of loads ag query request e tasks] by simp
      with None show False by simp
    qed
    have "\<exists>vs. loop_body loads it = Inr vs"
    proof (cases "loop_body loads it")
      case (Inl e)
      then have "consume loads (prepend items (Yield it End)) None = Inl e"
        using all_ok consume_all_ok [of items loads it None] by simp
      then have "g_raised ?blk = Some e"
        using up try_block_consume_raises [of loads ag query request e tasks] by simp
      with None show ?thesis by simp
    next
      case (Inr vs)
      then show ?thesis by blast
    qed
    then obtain state parts where tr: "terminal_rule loads (content it) = Inr (state, parts)"
      and valid: "list_all valid_part parts"
      using loop_body_complete_parts [OF complete] by blast
    have "\<exists>task. tasks (p_id (r_params request)) = Some task"
    proof (cases "tasks (p_id (r_params request))")
      case absent: None
      have "consume loads (stream ag query (p_sessionId (r_params request))) None =
        Inr (Some \<lparr>v_is_task_complete = True,
                   v_artifacts = Some [\<lparr>a_parts = parts, a_index = Some 0, a_append = Some False\<rparr>],
                   v_task_state = state, v_parts = parts\<rparr>)"
        using all_ok tr valid up complete consume_all_ok [of items loads it None]
        by (simp add: loop_body_complete_valid)
      then obtain e where "g_raised ?blk = Some e"
        using absent try_block_store_raises by blast
      with None show ?thesis by simp
    next
      case (Some task)
      then show ?thesis by blast
    qed
    then show ?thesis using ok all_ok tr valid by blast
  qed
  show ?thesis using cases ok by blast
qed

theorem stream_generator_event_order_witness:
  "g_events (stream_generator Map.empty (\<lparr>stream = (\<lambda>q s. Yield (\<lparr>is_task_complete = False, updates = PyStr ''step 1'', content = PyNone\<rparr>) (Yield (\<lparr>is_task_complete = True, updates = PyNone, content = PyStr ''done''\<rparr>) End)), invoke = (\<lambda>q s. Inr ''ok''), SUPPORTED_CONTENT_TYPES = [''text'']\<rparr>) (Map.empty(''t1'' \<mapsto> \<lparr>t_id = ''t1'', t_sessionId = ''s1'', t_status = \<lparr>ts_state = SUBMITTED, ts_message = None\<rparr>, t_artifacts = None, t_history = None, t_metadata = None\<rparr>)) (\<lparr>r_id = ''r1'', r_params = \<lparr>p_id = ''t1'', p_sessionId = ''s1'', p_message = \<lparr>m_role = ''user'', m_parts = [TextPart (PyStr ''hello'')], m_metadata = None\<rparr>, p_acceptedOutputModes = None, p_metadata = None\<rparr>\<rparr>)) =
     [SendTaskStreamingResponse ''r1'' (ResultStatus \<lparr>se_id = ''t1'', se_status = \<lparr>ts_state = COMPLETED, ts_message = Some \<lparr>m_role = ''agent'', m_parts = [TextPart (PyStr ''done'')], m_metadata = None\<rparr>\<rparr>, se_final = False, se_metadata = None\<rparr>),
      SendTaskStreamingResponse ''r1'' (ResultArtifact \<lparr>ae_id = ''t1'', ae_artifact = \<lparr>a_parts = [TextPart (PyStr ''done'')], a_index = Some 0, a_append = Some False\<rparr>, ae_metadata = None\<rparr>),
      SendTaskStreamingResponse ''r1'' (ResultStatus \<lparr>se_id = ''t1'', se_status = \<lparr>ts_state = COMPLETED, ts_message = None\<rparr>, se_final = True, se_metadata = None\<rparr>)]"
proof -
  have q: "get_user_query (r_params (\<lparr>r_id = ''r1'', r_params = \<lparr>p_id = ''t1'', p_sessionId = ''s1'', p_message = \<lparr>m_role = ''user'', m_parts = [TextPart (PyStr ''hello'')], m_metadata = None\<rparr>, p_acceptedOutputModes = None, p_metadata = None\<rparr>\<rparr>)) = Inr (PyStr ''hello'')"
    by (simp add: get_user_query_def)
  have up: "stream (\<lparr>stream = (\<lambda>q s. Yield (\<lparr>is_task_complete = False, updates = PyStr ''step 1'', content = PyNone\<rparr>) (Yield (\<lparr>is_task_complete = True, updates = PyNone, content = PyStr ''done''\<rparr>) End)), invoke = (\<lambda>q s. Inr ''ok''), SUPPORTED_CONTENT_TYPES = [''text'']\<rparr>) (PyStr ''hello'') (p_sessionId (r_params (\<lparr>r_id = ''r1'', r_params = \<lparr>p_id = ''t1'', p_sessionId = ''s1'', p_message = \<lparr>m_role = ''user'', m_parts = [TextPart (PyStr ''hello'')], m_metadata = None\<rparr>, p_acceptedOutputModes = None, p_metadata = None\<rparr>\<rparr>))) =
              prepend [\<lparr>is_task_complete = False, updates = PyStr ''step 1'', content = PyNone\<rparr>] (Yield (\<lparr>is_task_complete = True, updates = PyNone, content = PyStr ''done''\<rparr>) End)"
    by simp
  have c: "is_task_complete (\<lparr>is_task_complete = True, updates = PyNone, content = PyStr ''done''\<rparr>)" by simp
  show ?thesis
    using stream_generator_event_order [OF q up c, where loads = Map.empty
        and tasks = "(Map.empty(''t1'' \<mapsto> \<lparr>t_id = ''t1'', t_sessionId = ''s1'', t_status = \<lparr>ts_state = SUBMITTED, ts_message = None\<rparr>, t_artifacts = None, t_history = None, t_metadata = None\<rparr>))" and state = COMPLETED and parts = "[TextPart (PyStr ''done'')]"
        and task = "\<lparr>t_id = ''t1'', t_sessionId = ''s1'', t_status = \<lparr>ts_state = SUBMITTED, ts_message = None\<rparr>, t_artifacts = None, t_history = None, t_metadata = None\<rparr>"]
    by (simp add: loop_body_def terminal_rule_def)
qed


text \<open>
  C1. The specification has one WORKING status event for every update that is not
  complete. The generator builds its events after the loop has ended, from the last
  update alone: on an upstream of two updates, neither complete, it yields a single
  WORKING status event, for the second; on an upstream of one such update followed by
  a complete one it yields the three terminal events and no WORKING event.
\<close>

theorem stream_generator_two_progress_updates:
  "g_events (stream_generator Map.empty (\<lparr>stream = (\<lambda>q s. Yield (\<lparr>is_task_complete = False, updates = PyStr ''step 1'', content = PyNone\<rparr>) (Yield (\<lparr>is_task_complete = False, updates = PyStr ''step 2'', content = PyNone\<rparr>) End)), invoke = (\<lambda>q s. Inr ''ok''), SUPPORTED_CONTENT_TYPES = [''text'']\<rparr>) (Map.empty(''t1'' \<mapsto> \<lparr>t_id = ''t1'', t_sessionId = ''s1'', t_status = \<lparr>ts_state = SUBMITTED, ts_message = None\<rparr>, t_artifacts = None, t_history = None, t_metadata = None\<rparr>)) (\<lparr>r_id = ''r1'', r_params = \<lparr>p_id = ''t1'', p_sessionId = ''s1'', p_message = \<lparr>m_role = ''user'', m_parts = [TextPart (PyStr ''hello'')], m_metadata = None\<rparr>, p_acceptedOutputModes = None, p_metadata = None\<rparr>\<rparr>)) = [SendTaskStreamingResponse ''r1'' (ResultStatus \<lparr>se_id = ''t1'', se_status = \<lparr>ts_state = WORKING, ts_message = Some \<lparr>m_role = ''agent'', m_parts = [TextPart (PyStr ''step 2'')], m_metadata = None\<rparr>\<rparr>, se_final = False, se_metadata = None\<rparr>)]
   \<and> g_events (stream_generator Map.empty (\<lparr>stream = (\<lambda>q s. Yield (\<lparr>is_task_complete = False, updates = PyStr ''step 1'', content = PyNone\<rparr>) (Yield (\<lparr>is_task_complete = True, updates = PyNone, content = PyStr ''done''\<rparr>) End)), invoke = (\<lambda>q s. Inr ''ok''), SUPPORTED_CONTENT_TYPES = [''text'']\<rparr>) (Map.empty(''t1'' \<mapsto> \<lparr>t_id = ''t1'', t_sessionId = ''s1'', t_status = \<lparr>ts_state = SUBMITTED, ts_message = None\<rparr>, t_artifacts = None, t_history = None, t_metadata = None\<rparr>)) (\<lparr>r_id = ''r1'', r_params = \<lparr>p_id = ''t1'', p_sessionId = ''s1'', p_message = \<lparr>m_role = ''user'', m_parts = [TextPart (PyStr ''hello'')], m_metadata = None\<rparr>, p_acceptedOutputModes = None, p_metadata = None\<rparr>\<rparr>)) =
     [SendTaskStreamingResponse ''r1'' (ResultStatus \<lparr>se_id = ''t1'', se_status = \<lparr>ts_state = COMPLETED, ts_message = Some \<lparr>m_role = ''agent'', m_parts = [TextPart (PyStr ''done'')], m_metadata = None\<rparr>\<rparr>, se_final = False, se_metadata = None\<rparr>),
      SendTaskStreamingResponse ''r1'' (ResultArtifact \<lparr>ae_id = ''t1'', ae_artifact = \<lparr>a_parts = [TextPart (PyStr ''done'')], a_index = Some 0, a_append = Some False\<rparr>, ae_metadata = None\<rparr>),
      SendTaskStreamingResponse ''r1'' (ResultStatus \<lparr>se_id = ''t1'', se_status = \<lparr>ts_state = COMPLETED, ts_message = None\<rparr>, se_final = True, se_metadata = None\<rparr>)]"
  by (simp add: stream_generator_def try_block_def after_loop_def update_store_def
        loop_body_def terminal_rule_def get_user_query_def new_Artifact_def new_Message_def
        Let_def)

section \<open>The terminal state rule: properties\<close>

lemma terminal_rule_dict:
  "terminal_rule loads (PyDict d) =
     (case map_of d ''response'' of
        None \<Rightarrow> Inr (COMPLETED, [DataPart (PyDict d)])
      | Some rv \<Rightarrow>
          (case py_in ''result'' rv of
             Inl e \<Rightarrow> Inl e
           | Inr b \<Rightarrow>
               if b then
                 (case py_getitem rv ''result'' of
                    Inl e \<Rightarrow> Inl e
                  | Inr x \<Rightarrow>
                      (case json_loads loads x of
                         Inl e \<Rightarrow> Inl e
                       | Inr data \<Rightarrow> Inr (INPUT_REQUIRED, [DataPart data])))
               else Inr (COMPLETED, [DataPart (PyDict d)])))"
  by (simp add: terminal_rule_def split: option.splits sum.splits)

lemma terminal_rule_not_dict:
  "\<forall>d. c \<noteq> PyDict d \<Longrightarrow> terminal_rule loads c = Inr (COMPLETED, [TextPart c])"
  by (cases c) (simp_all add: terminal_rule_def)

lemma result_present_raises:
  assumes "py_in ''result'' rv = Inr True"
    and "\<forall>r s data. \<not> (rv = PyDict r \<and> map_of r ''result'' = Some (PyStr s) \<and> loads s = Some data)"
  shows "\<exists>e. (case py_getitem rv ''result'' of
                Inl e \<Rightarrow> Inl e
              | Inr x \<Rightarrow>
                  (case json_loads loads x of
                     Inl e \<Rightarrow> Inl e
                   | Inr data \<Rightarrow> Inr (INPUT_REQUIRED, [DataPart data]))) = (Inl e :: exception + (TaskState \<times> part list))"
proof (cases rv)
  case (PyDict r)
  with assms(1) obtain x where x: "map_of r ''result'' = Some x" by auto
  show ?thesis
  proof (cases x)
    case (PyStr s)
    with assms(2) PyDict x have "loads s = None" by (cases "loads s") auto
    with PyDict x PyStr show ?thesis by simp
  qed (use PyDict x in simp_all)
qed simp_all

lemma invoke_agent_ok:
  assumes "get_user_query (r_params request) = Inr query"
    and "invoke ag query (p_sessionId (r_params request)) = Inr result"
    and "tasks (p_id (r_params request)) = Some task"
  shows "\<exists>task'. c_value (invoke_agent ag tasks request) = Inr (SendTaskResponse (r_id request) task')
       \<and> t_status task' =
           \<lparr>ts_state = (if sublist ''MISSING_INFO:'' result then INPUT_REQUIRED else COMPLETED),
            ts_message = Some \<lparr>m_role = ''agent'', m_parts = [TextPart (PyStr result)],
                               m_metadata = None\<rparr>\<rparr>
       \<and> c_tasks (invoke_agent ag tasks request) = tasks(p_id (r_params request) \<mapsto> task')"
  using assms
  by (simp add: invoke_agent_def update_store_def new_Message_def new_Artifact_def Let_def
        str_contains_sublist)

lemma terminal_rule_str:
  "terminal_rule loads (PyStr body) = Inr (COMPLETED, [TextPart (PyStr body)])"
  by (simp add: terminal_rule_def)

lemma decoded_not_object_raises:
  assumes c: "is_task_complete it" and d: "content it = PyDict d"
    and rv: "map_of d ''response'' = Some rv" and found: "py_in ''result'' rv = Inr True"
    and none: "\<forall>r s obj. \<not> (rv = PyDict r \<and> map_of r ''result'' = Some (PyStr s)
                            \<and> loads s = Some (PyDict obj))"
  shows "\<exists>e. loop_body loads it = Inl e"
proof (cases "\<exists>r s data. rv = PyDict r \<and> map_of r ''result'' = Some (PyStr s)
                \<and> loads s = Some data")
  case True
  then obtain r s data where h: "rv = PyDict r" "map_of r ''result'' = Some (PyStr s)"
    "loads s = Some data"
    by blast
  with none have "\<forall>obj. data \<noteq> PyDict obj" by blast
  then have "\<not> valid_part (DataPart data)" by (cases data) simp_all
  moreover have "terminal_rule loads (content it) = Inr (INPUT_REQUIRED, [DataPart data])"
    using d rv h by (simp add: terminal_rule_dict)
  ultimately show ?thesis
    using c loop_body_complete_invalid [of it loads INPUT_REQUIRED "[DataPart data]"] by simp
next
  case False
  then have "\<forall>r s data. \<not> (rv = PyDict r \<and> map_of r ''result'' = Some (PyStr s)
                            \<and> loads s = Some data)"
    by blast
  then obtain e where "terminal_rule loads (content it) = Inl e"
    using result_present_raises [OF found, of loads] d rv found
    by (auto simp: terminal_rule_dict)
  then show ?thesis using c by (simp add: loop_body_complete)
qed

lemma content_not_text_raises:
  assumes c: "is_task_complete it" and nd: "\<forall>d. content it \<noteq> PyDict d"
    and ns: "\<forall>body. content it \<noteq> PyStr body"
  shows "\<exists>e. loop_body loads it = Inl e"
proof -
  have "terminal_rule loads (content it) = Inr (COMPLETED, [TextPart (content it)])"
    using nd by (rule terminal_rule_not_dict)
  moreover have "\<not> valid_part (TextPart (content it))"
    using ns by (cases "content it") simp_all
  ultimately show ?thesis
    using c loop_body_complete_invalid [of it loads COMPLETED "[TextPart (content it)]"] by simp
qed

text \<open>
  C2. The terminal state of a complete update, from its content; the parts the rule
  gives are the parts of the one artifact of the update. A dict whose \<^verbatim>\<open>response\<close> is
  a dict whose \<^verbatim>\<open>result\<close> is a string that decodes as a JSON object: the decoded
  object is the data of the part and the state is INPUT_REQUIRED. A dict without
  \<^verbatim>\<open>response\<close>, or whose \<^verbatim>\<open>response\<close> value holds no \<^verbatim>\<open>result\<close>: the content itself is
  the data and the state is COMPLETED. A content that is a string: it is the text and
  the state is COMPLETED. In every remaining case the pass raises and no state is
  set: the \<^verbatim>\<open>response\<close> value is not a container; \<^verbatim>\<open>result\<close> is found in it but is not
  a key holding a string that decodes as a JSON object; the content is neither a dict
  nor a string. In the unary path the state is INPUT_REQUIRED when the agent's text
  contains \<^verbatim>\<open>MISSING_INFO:\<close> and COMPLETED otherwise.
\<close>

theorem terminal_state_rule:
  "(is_task_complete it \<and> content it = PyDict d
      \<and> map_of d ''response'' = Some (PyDict r) \<and> map_of r ''result'' = Some (PyStr s)
      \<and> loads s = Some (PyDict obj) \<longrightarrow>
      loop_body loads it =
        Inr \<lparr>v_is_task_complete = True,
             v_artifacts = Some [\<lparr>a_parts = [DataPart (PyDict obj)], a_index = Some 0, a_append = Some False\<rparr>],
             v_task_state = INPUT_REQUIRED, v_parts = [DataPart (PyDict obj)]\<rparr>)
   \<and> (is_task_complete it \<and> content it = PyDict d \<and> map_of d ''response'' = None \<longrightarrow>
      loop_body loads it =
        Inr \<lparr>v_is_task_complete = True,
             v_artifacts = Some [\<lparr>a_parts = [DataPart (PyDict d)], a_index = Some 0, a_append = Some False\<rparr>],
             v_task_state = COMPLETED, v_parts = [DataPart (PyDict d)]\<rparr>)
   \<and> (is_task_complete it \<and> content it = PyDict d
      \<and> map_of d ''response'' = Some rv \<and> py_in ''result'' rv = Inr False \<longrightarrow>
      loop_body loads it =
        Inr \<lparr>v_is_task_complete = True,
             v_artifacts = Some [\<lparr>a_parts = [DataPart (PyDict d)], a_index = Some 0, a_append = Some False\<rparr>],
             v_task_state = COMPLETED, v_parts = [DataPart (PyDict d)]\<rparr>)
   \<and> (is_task_complete it \<and> content it = PyStr body \<longrightarrow>
      loop_body loads it =
        Inr \<lparr>v_is_task_complete = True,
             v_artifacts = Some [\<lparr>a_parts = [TextPart (PyStr body)], a_index = Some 0, a_append = Some False\<rparr>],
             v_task_state = COMPLETED, v_parts = [TextPart (PyStr body)]\<rparr>)
   \<and> (is_task_complete it \<and> content it = PyDict d
      \<and> map_of d ''response'' = Some rv \<and> py_in ''result'' rv = Inl e \<longrightarrow>
      loop_body loads it = Inl e)
   \<and> (is_task_complete it \<and> content it = PyDict d
      \<and> map_of d ''response'' = Some rv \<and> py_in ''result'' rv = Inr True
      \<and> (\<forall>r s obj. \<not> (rv = PyDict r \<and> map_of r ''result'' = Some (PyStr s)
                         \<and> loads s = Some (PyDict obj))) \<longrightarrow>
      (\<exists>e. loop_body loads it = Inl e))
   \<and> (is_task_complete it \<and> (\<forall>d. content it \<noteq> PyDict d)
      \<and> (\<forall>body. content it \<noteq> PyStr body) \<longrightarrow>
      (\<exists>e. loop_body loads it = Inl e))
   \<and> (get_user_query (r_params request) = Inr query
      \<and> invoke ag query (p_sessionId (r_params request)) = Inr result
      \<and> tasks (p_id (r_params request)) = Some task \<longrightarrow>
      (\<exists>task'. c_value (invoke_agent ag tasks request) = Inr (SendTaskResponse (r_id request) task')
         \<and> t_status task' =
             \<lparr>ts_state = (if sublist ''MISSING_INFO:'' result then INPUT_REQUIRED else COMPLETED),
              ts_message = Some \<lparr>m_role = ''agent'', m_parts = [TextPart (PyStr result)],
                                 m_metadata = None\<rparr>\<rparr>
         \<and> c_tasks (invoke_agent ag tasks request) = tasks(p_id (r_params request) \<mapsto> task')))"
proof -
  have parsed: "is_task_complete it \<and> content it = PyDict d
      \<and> map_of d ''response'' = Some (PyDict r) \<and> map_of r ''result'' = Some (PyStr s)
      \<and> loads s = Some (PyDict obj) \<longrightarrow>
      loop_body loads it =
        Inr \<lparr>v_is_task_complete = True,
             v_artifacts = Some [\<lparr>a_parts = [DataPart (PyDict obj)], a_index = Some 0, a_append = Some False\<rparr>],
             v_task_state = INPUT_REQUIRED, v_parts = [DataPart (PyDict obj)]\<rparr>"
    by (simp add: loop_body_complete terminal_rule_dict new_Artifact_def)
  have no_response: "is_task_complete it \<and> content it = PyDict d
      \<and> map_of d ''response'' = None \<longrightarrow>
      loop_body loads it =
        Inr \<lparr>v_is_task_complete = True,
             v_artifacts = Some [\<lparr>a_parts = [DataPart (PyDict d)], a_index = Some 0, a_append = Some False\<rparr>],
             v_task_state = COMPLETED, v_parts = [DataPart (PyDict d)]\<rparr>"
    by (simp add: loop_body_complete terminal_rule_dict new_Artifact_def)
  have no_result: "is_task_complete it \<and> content it = PyDict d
      \<and> map_of d ''response'' = Some rv \<and> py_in ''result'' rv = Inr False \<longrightarrow>
      loop_body loads it =
        Inr \<lparr>v_is_task_complete = True,
             v_artifacts = Some [\<lparr>a_parts = [DataPart (PyDict d)], a_index = Some 0, a_append = Some False\<rparr>],
             v_task_state = COMPLETED, v_parts = [DataPart (PyDict d)]\<rparr>"
    by (simp add: loop_body_complete terminal_rule_dict new_Artifact_def)
  have plain: "is_task_complete it \<and> content it = PyStr body \<longrightarrow>
      loop_body loads it =
        Inr \<lparr>v_is_task_complete = True,
             v_artifacts = Some [\<lparr>a_parts = [TextPart (PyStr body)], a_index = Some 0, a_append = Some False\<rparr>],
             v_task_state = COMPLETED, v_parts = [TextPart (PyStr body)]\<rparr>"
    by (simp add: loop_body_complete terminal_rule_str new_Artifact_def)
  have raises_in: "is_task_complete it \<and> content it = PyDict d
      \<and> map_of d ''response'' = Some rv \<and> py_in ''result'' rv = Inl e \<longrightarrow>
      loop_body loads it = Inl e"
    by (simp add: loop_body_complete terminal_rule_dict)
  have raises_decode: "is_task_complete it \<and> content it = PyDict d
      \<and> map_of d ''response'' = Some rv \<and> py_in ''result'' rv = Inr True
      \<and> (\<forall>r s obj. \<not> (rv = PyDict r \<and> map_of r ''result'' = Some (PyStr s)
                         \<and> loads s = Some (PyDict obj))) \<longrightarrow>
      (\<exists>e. loop_body loads it = Inl e)"
    using decoded_not_object_raises [of it d rv loads] by blast
  have raises_type: "is_task_complete it \<and> (\<forall>d. content it \<noteq> PyDict d)
      \<and> (\<forall>body. content it \<noteq> PyStr body) \<longrightarrow>
      (\<exists>e. loop_body loads it = Inl e)"
    using content_not_text_raises [of it loads] by blast
  have unary: "get_user_query (r_params request) = Inr query
      \<and> invoke ag query (p_sessionId (r_params request)) = Inr result
      \<and> tasks (p_id (r_params request)) = Some task \<longrightarrow>
      (\<exists>task'. c_value (invoke_agent ag tasks request) = Inr (SendTaskResponse (r_id request) task')
         \<and> t_status task' =
             \<lparr>ts_state = (if sublist ''MISSING_INFO:'' result then INPUT_REQUIRED else COMPLETED),
              ts_message = Some \<lparr>m_role = ''agent'', m_parts = [TextPart (PyStr result)],
                                 m_metadata = None\<rparr>\<rparr>
         \<and> c_tasks (invoke_agent ag tasks request) = tasks(p_id (r_params request) \<mapsto> task'))"
    using invoke_agent_ok [of request query ag result tasks task] by blast
  from parsed no_response no_result plain raises_in raises_decode raises_type unary
  show ?thesis by (intro conjI)
qed

theorem terminal_state_rule_witness:
  "loop_body (Map.empty(''{}'' \<mapsto> PyDict [], ''[]'' \<mapsto> PyList [])) (\<lparr>is_task_complete = True, updates = PyNone, content = PyDict [(''response'', PyDict [(''result'', PyStr ''{}'')])]\<rparr>) = Inr \<lparr>v_is_task_complete = True, v_artifacts = Some [\<lparr>a_parts = [DataPart (PyDict [])], a_index = Some 0, a_append = Some False\<rparr>], v_task_state = INPUT_REQUIRED, v_parts = [DataPart (PyDict [])]\<rparr>
   \<and> loop_body (Map.empty(''{}'' \<mapsto> PyDict [], ''[]'' \<mapsto> PyList [])) (\<lparr>is_task_complete = True, updates = PyNone, content = PyDict [(''y'', PyInt 2)]\<rparr>) = Inr \<lparr>v_is_task_complete = True, v_artifacts = Some [\<lparr>a_parts = [DataPart (PyDict [(''y'', PyInt 2)])], a_index = Some 0, a_append = Some False\<rparr>], v_task_state = COMPLETED, v_parts = [DataPart (PyDict [(''y'', PyInt 2)])]\<rparr>
   \<and> loop_body (Map.empty(''{}'' \<mapsto> PyDict [], ''[]'' \<mapsto> PyList [])) (\<lparr>is_task_complete = True, updates = PyNone, content = PyStr ''done''\<rparr>) = Inr \<lparr>v_is_task_complete = True, v_artifacts = Some [\<lparr>a_parts = [TextPart (PyStr ''done'')], a_index = Some 0, a_append = Some False\<rparr>], v_task_state = COMPLETED, v_parts = [TextPart (PyStr ''done'')]\<rparr>
   \<and> (\<exists>e. loop_body (Map.empty(''{}'' \<mapsto> PyDict [], ''[]'' \<mapsto> PyList [])) (\<lparr>is_task_complete = True, updates = PyNone, content = PyDict [(''response'', PyDict [(''result'', PyStr ''oops'')])]\<rparr>) = Inl e)
   \<and> (\<exists>e. loop_body (Map.empty(''{}'' \<mapsto> PyDict [], ''[]'' \<mapsto> PyList [])) (\<lparr>is_task_complete = True, updates = PyNone, content = PyDict [(''response'', PyDict [(''result'', PyStr ''[]'')])]\<rparr>) = Inl e)
   \<and> (\<exists>e. loop_body (Map.empty(''{}'' \<mapsto> PyDict [], ''[]'' \<mapsto> PyList [])) (\<lparr>is_task_complete = True, updates = PyNone, content = PyInt 5\<rparr>) = Inl e)
   \<and> (\<exists>task'. c_value (invoke_agent (\<lparr>stream = (\<lambda>q s. End), invoke = (\<lambda>q s. Inr ''MISSING_INFO: need X''), SUPPORTED_CONTENT_TYPES = [''text'']\<rparr>) (Map.empty(''t1'' \<mapsto> \<lparr>t_id = ''t1'', t_sessionId = ''s1'', t_status = \<lparr>ts_state = SUBMITTED, ts_message = None\<rparr>, t_artifacts = None, t_history = None, t_metadata = None\<rparr>)) (\<lparr>r_id = ''r1'', r_params = \<lparr>p_id = ''t1'', p_sessionId = ''s1'', p_message = \<lparr>m_role = ''user'', m_parts = [TextPart (PyStr ''hello'')], m_metadata = None\<rparr>, p_acceptedOutputModes = None, p_metadata = None\<rparr>\<rparr>)) = Inr (SendTaskResponse ''r1'' task')
         \<and> ts_state (t_status task') = INPUT_REQUIRED)"
proof -
  note T = terminal_state_rule [where loads = "(Map.empty(''{}'' \<mapsto> PyDict [], ''[]'' \<mapsto> PyList []))"]
  have a: "loop_body (Map.empty(''{}'' \<mapsto> PyDict [], ''[]'' \<mapsto> PyList [])) (\<lparr>is_task_complete = True, updates = PyNone, content = PyDict [(''response'', PyDict [(''result'', PyStr ''{}'')])]\<rparr>) = Inr \<lparr>v_is_task_complete = True, v_artifacts = Some [\<lparr>a_parts = [DataPart (PyDict [])], a_index = Some 0, a_append = Some False\<rparr>], v_task_state = INPUT_REQUIRED, v_parts = [DataPart (PyDict [])]\<rparr>"
    using T [where it = "\<lparr>is_task_complete = True, updates = PyNone, content = PyDict [(''response'', PyDict [(''result'', PyStr ''{}'')])]\<rparr>" and d = "[(''response'', PyDict [(''result'', PyStr ''{}'')])]"
        and r = "[(''result'', PyStr ''{}'')]" and s = "''{}''" and obj = "[]",
        THEN conjunct1]
    by simp
  have b: "loop_body (Map.empty(''{}'' \<mapsto> PyDict [], ''[]'' \<mapsto> PyList [])) (\<lparr>is_task_complete = True, updates = PyNone, content = PyDict [(''y'', PyInt 2)]\<rparr>) = Inr \<lparr>v_is_task_complete = True, v_artifacts = Some [\<lparr>a_parts = [DataPart (PyDict [(''y'', PyInt 2)])], a_index = Some 0, a_append = Some False\<rparr>], v_task_state = COMPLETED, v_parts = [DataPart (PyDict [(''y'', PyInt 2)])]\<rparr>"
    using T [where it = "\<lparr>is_task_complete = True, updates = PyNone, content = PyDict [(''y'', PyInt 2)]\<rparr>" and d = "[(''y'', PyInt 2)]", THEN conjunct2, THEN conjunct1]
    by simp
  have c: "loop_body (Map.empty(''{}'' \<mapsto> PyDict [], ''[]'' \<mapsto> PyList [])) (\<lparr>is_task_complete = True, updates = PyNone, content = PyStr ''done''\<rparr>) = Inr \<lparr>v_is_task_complete = True, v_artifacts = Some [\<lparr>a_parts = [TextPart (PyStr ''done'')], a_index = Some 0, a_append = Some False\<rparr>], v_task_state = COMPLETED, v_parts = [TextPart (PyStr ''done'')]\<rparr>"
    using T [where it = "\<lparr>is_task_complete = True, updates = PyNone, content = PyStr ''done''\<rparr>" and body = "''done''",
        THEN conjunct2, THEN conjunct2, THEN conjunct2, THEN conjunct1]
    by simp
  have d: "\<exists>e. loop_body (Map.empty(''{}'' \<mapsto> PyDict [], ''[]'' \<mapsto> PyList [])) (\<lparr>is_task_complete = True, updates = PyNone, content = PyDict [(''response'', PyDict [(''result'', PyStr ''oops'')])]\<rparr>) = Inl e"
    using T [where it = "\<lparr>is_task_complete = True, updates = PyNone, content = PyDict [(''response'', PyDict [(''result'', PyStr ''oops'')])]\<rparr>" and d = "[(''response'', PyDict [(''result'', PyStr ''oops'')])]"
        and rv = "PyDict [(''result'', PyStr ''oops'')]",
        THEN conjunct2, THEN conjunct2, THEN conjunct2, THEN conjunct2, THEN conjunct2, THEN conjunct1]
    by simp
  have d2: "\<exists>e. loop_body (Map.empty(''{}'' \<mapsto> PyDict [], ''[]'' \<mapsto> PyList [])) (\<lparr>is_task_complete = True, updates = PyNone, content = PyDict [(''response'', PyDict [(''result'', PyStr ''[]'')])]\<rparr>) = Inl e"
    using T [where it = "\<lparr>is_task_complete = True, updates = PyNone, content = PyDict [(''response'', PyDict [(''result'', PyStr ''[]'')])]\<rparr>" and d = "[(''response'', PyDict [(''result'', PyStr ''[]'')])]"
        and rv = "PyDict [(''result'', PyStr ''[]'')]",
        THEN conjunct2, THEN conjunct2, THEN conjunct2, THEN conjunct2, THEN conjunct2, THEN conjunct1]
    by simp
  have d3: "\<exists>e. loop_body (Map.empty(''{}'' \<mapsto> PyDict [], ''[]'' \<mapsto> PyList [])) (\<lparr>is_task_complete = True, updates = PyNone, content = PyInt 5\<rparr>) = Inl e"
    using T [where it = "\<lparr>is_task_complete = True, updates = PyNone, content = PyInt 5\<rparr>",
        THEN conjunct2, THEN conjunct2, THEN conjunct2, THEN conjunct2, THEN conjunct2, THEN conjunct2, THEN conjunct1]
    by simp
  have e: "\<exists>task'. c_value (invoke_agent (\<lparr>stream = (\<lambda>q s. End), invoke = (\<lambda>q s. Inr ''MISSING_INFO: need X''), SUPPORTED_CONTENT_TYPES = [''text'']\<rparr>) (Map.empty(''t1'' \<mapsto> \<lparr>t_id = ''t1'', t_sessionId = ''s1'', t_status = \<lparr>ts_state = SUBMITTED, ts_message = None\<rparr>, t_artifacts = None, t_history = None, t_metadata = None\<rparr>)) (\<lparr>r_id = ''r1'', r_params = \<lparr>p_id = ''t1'', p_sessionId = ''s1'', p_message = \<lparr>m_role = ''user'', m_parts = [TextPart (PyStr ''hello'')], m_metadata = None\<rparr>, p_acceptedOutputModes = None, p_metadata = None\<rparr>\<rparr>)) = Inr (SendTaskResponse ''r1'' task')
         \<and> ts_state (t_status task') = INPUT_REQUIRED"
    using T [where request = "\<lparr>r_id = ''r1'', r_params = \<lparr>p_id = ''t1'', p_sessionId = ''s1'', p_message = \<lparr>m_role = ''user'', m_parts = [TextPart (PyStr ''hello'')], m_metadata = None\<rparr>, p_acceptedOutputModes = None, p_metadata = None\<rparr>\<rparr>" and query = "PyStr ''hello''" and ag = "\<lparr>stream = (\<lambda>q s. End), invoke = (\<lambda>q s. Inr ''MISSING_INFO: need X''), SUPPORTED_CONTENT_TYPES = [''text'']\<rparr>"
        and result = "''MISSING_INFO: need X''" and tasks = "(Map.empty(''t1'' \<mapsto> \<lparr>t_id = ''t1'', t_sessionId = ''s1'', t_status = \<lparr>ts_state = SUBMITTED, ts_message = None\<rparr>, t_artifacts = None, t_history = None, t_metadata = None\<rparr>))" and task = "\<lparr>t_id = ''t1'', t_sessionId = ''s1'', t_status = \<lparr>ts_state = SUBMITTED, ts_message = None\<rparr>, t_artifacts = None, t_history = None, t_metadata = None\<rparr>",
        THEN conjunct2, THEN conjunct2, THEN conjunct2, THEN conjunct2, THEN conjunct2, THEN conjunct2, THEN conjunct2]
    by (auto simp: get_user_query_def str_contains_sublist [symmetric])
  from a b c d d2 d3 e show ?thesis by (intro conjI)
qed

text \<open>
  The claim without the amendment fails: a complete update whose content is
  \<^verbatim>\<open>{"response": None}\<close>, or \<^verbatim>\<open>{"response": {"result": 5}}\<close>, is none of the
  INPUT_REQUIRED cases, and the pass of the loop raises on it; the generator answers
  with the error response and the task keeps the state it had.
\<close>

theorem terminal_state_rule_counterexample:
  "terminal_rule Map.empty (PyDict [(''response'', PyNone)]) = Inl (Raised TypeError ''argument is not iterable'')
   \<and> g_events (stream_generator Map.empty (\<lparr>stream = (\<lambda>q s. Yield (\<lparr>is_task_complete = True, updates = PyNone, content = PyDict [(''response'', PyNone)]\<rparr>) End), invoke = (\<lambda>q s. Inr ''ok''), SUPPORTED_CONTENT_TYPES = [''text'']\<rparr>) (Map.empty(''t1'' \<mapsto> \<lparr>t_id = ''t1'', t_sessionId = ''s1'', t_status = \<lparr>ts_state = SUBMITTED, ts_message = None\<rparr>, t_artifacts = None, t_history = None, t_metadata = None\<rparr>)) (\<lparr>r_id = ''r1'', r_params = \<lparr>p_id = ''t1'', p_sessionId = ''s1'', p_message = \<lparr>m_role = ''user'', m_parts = [TextPart (PyStr ''hello'')], m_metadata = None\<rparr>, p_acceptedOutputModes = None, p_metadata = None\<rparr>\<rparr>)) = [JSONRPCResponse ''r1'' (InternalError ''An error occurred while streaming the response'')]
   \<and> g_tasks (stream_generator Map.empty (\<lparr>stream = (\<lambda>q s. Yield (\<lparr>is_task_complete = True, updates = PyNone, content = PyDict [(''response'', PyNone)]\<rparr>) End), invoke = (\<lambda>q s. Inr ''ok''), SUPPORTED_CONTENT_TYPES = [''text'']\<rparr>) (Map.empty(''t1'' \<mapsto> \<lparr>t_id = ''t1'', t_sessionId = ''s1'', t_status = \<lparr>ts_state = SUBMITTED, ts_message = None\<rparr>, t_artifacts = None, t_history = None, t_metadata = None\<rparr>)) (\<lparr>r_id = ''r1'', r_params = \<lparr>p_id = ''t1'', p_sessionId = ''s1'', p_message = \<lparr>m_role = ''user'', m_parts = [TextPart (PyStr ''hello'')], m_metadata = None\<rparr>, p_acceptedOutputModes = None, p_metadata = None\<rparr>\<rparr>)) = (Map.empty(''t1'' \<mapsto> \<lparr>t_id = ''t1'', t_sessionId = ''s1'', t_status = \<lparr>ts_state = SUBMITTED, ts_message = None\<rparr>, t_artifacts = None, t_history = None, t_metadata = None\<rparr>))
   \<and> terminal_rule Map.empty (PyDict [(''response'', PyDict [(''result'', PyInt 5)])])
       = Inl (Raised TypeError ''the JSON object must be str, bytes or bytearray'')
   \<and> g_events (stream_generator Map.empty (\<lparr>stream = (\<lambda>q s. Yield (\<lparr>is_task_complete = True, updates = PyNone, content = PyDict [(''response'', PyDict [(''result'', PyInt 5)])]\<rparr>) End), invoke = (\<lambda>q s. Inr ''ok''), SUPPORTED_CONTENT_TYPES = [''text'']\<rparr>) (Map.empty(''t1'' \<mapsto> \<lparr>t_id = ''t1'', t_sessionId = ''s1'', t_status = \<lparr>ts_state = SUBMITTED, ts_message = None\<rparr>, t_artifacts = None, t_history = None, t_metadata = None\<rparr>)) (\<lparr>r_id = ''r1'', r_params = \<lparr>p_id = ''t1'', p_sessionId = ''s1'', p_message = \<lparr>m_role = ''user'', m_parts = [TextPart (PyStr ''hello'')], m_metadata = None\<rparr>, p_acceptedOutputModes = None, p_metadata = None\<rparr>\<rparr>)) = [JSONRPCResponse ''r1'' (InternalError ''An error occurred while streaming the response'')]"
  by (simp add: stream_generator_def try_block_def after_loop_def update_store_def
        loop_body_def terminal_rule_def get_user_query_def new_Artifact_def new_Message_def
        Let_def)


section \<open>The request handlers: properties\<close>

text \<open>The agent is called once the query has been read, and not otherwise.\<close>

lemma invoke_agent_trace:
  "c_trace (invoke_agent ag tasks request) =
     (case get_user_query (r_params request) of
        Inl e \<Rightarrow> []
      | Inr query \<Rightarrow> [AgentInvoked query (p_sessionId (r_params request))])"
  by (simp add: invoke_agent_def new_Message_def new_Artifact_def Let_def
        split: sum.splits prod.splits)

lemma stream_generator_trace:
  "g_trace (stream_generator loads ag tasks request) =
     (case get_user_query (r_params request) of
        Inl e \<Rightarrow> []
      | Inr query \<Rightarrow> [AgentStreamed query (p_sessionId (r_params request))])"
  by (simp add: stream_generator_def try_block_def Let_def split: sum.splits option.splits)

text \<open>
  C9. A request whose accepted output modes are not compatible with the agent's
  content types: \<open>on_send_task\<close> and \<open>on_send_task_subscribe\<close> both return the error
  response of \<^verbatim>\<open>new_incompatible_types_error\<close>, the store is as before, and nothing is
  upserted and no agent called (the trace is empty). A compatible request: the upsert
  is the first entry of the trace and the agent's call, if the query can be read,
  comes after it; the unary handler invokes the agent on the store the upsert left,
  and the generator that \<open>on_send_task_subscribe\<close> returns runs on that store too.
\<close>

theorem on_send_task_validation:
  "(\<not> are_modalities_compatible u (p_acceptedOutputModes (r_params request)) (SUPPORTED_CONTENT_TYPES ag) \<longrightarrow>
      on_send_task u upsert ag tasks request =
        \<lparr>c_value = Inr (new_incompatible_types_error u (r_id request)), c_tasks = tasks,
         c_trace = []\<rparr>
    \<and> on_send_task_subscribe u upsert ag tasks request =
        \<lparr>c_value = Inr (Rejected (new_incompatible_types_error u (r_id request))),
         c_tasks = tasks, c_trace = []\<rparr>)
   \<and> (are_modalities_compatible u (p_acceptedOutputModes (r_params request)) (SUPPORTED_CONTENT_TYPES ag) \<longrightarrow>
      c_trace (on_send_task u upsert ag tasks request) =
        Upserted (p_id (r_params request)) #
          (case get_user_query (r_params request) of
             Inl e \<Rightarrow> []
           | Inr query \<Rightarrow> [AgentInvoked query (p_sessionId (r_params request))])
    \<and> c_value (on_send_task u upsert ag tasks request) =
        c_value (invoke_agent ag (upsert tasks (r_params request)) request)
    \<and> c_tasks (on_send_task u upsert ag tasks request) =
        c_tasks (invoke_agent ag (upsert tasks (r_params request)) request)
    \<and> on_send_task_subscribe u upsert ag tasks request =
        \<lparr>c_value = Inr (Generator request), c_tasks = upsert tasks (r_params request),
         c_trace = [Upserted (p_id (r_params request))]\<rparr>
    \<and> g_trace (drain loads ag (on_send_task_subscribe u upsert ag tasks request)) =
        Upserted (p_id (r_params request)) #
          (case get_user_query (r_params request) of
             Inl e \<Rightarrow> []
           | Inr query \<Rightarrow> [AgentStreamed query (p_sessionId (r_params request))])
    \<and> g_events (drain loads ag (on_send_task_subscribe u upsert ag tasks request)) =
        g_events (stream_generator loads ag (upsert tasks (r_params request)) request)
    \<and> g_tasks (drain loads ag (on_send_task_subscribe u upsert ag tasks request)) =
        g_tasks (stream_generator loads ag (upsert tasks (r_params request)) request))"
proof -
  have rejected:
    "\<not> are_modalities_compatible u (p_acceptedOutputModes (r_params request)) (SUPPORTED_CONTENT_TYPES ag) \<longrightarrow>
      on_send_task u upsert ag tasks request =
        \<lparr>c_value = Inr (new_incompatible_types_error u (r_id request)), c_tasks = tasks,
         c_trace = []\<rparr>
    \<and> on_send_task_subscribe u upsert ag tasks request =
        \<lparr>c_value = Inr (Rejected (new_incompatible_types_error u (r_id request))),
         c_tasks = tasks, c_trace = []\<rparr>"
    by (simp add: on_send_task_def on_send_task_subscribe_def validate_request_def Let_def)
  have accepted:
    "are_modalities_compatible u (p_acceptedOutputModes (r_params request)) (SUPPORTED_CONTENT_TYPES ag) \<longrightarrow>
      c_trace (on_send_task u upsert ag tasks request) =
        Upserted (p_id (r_params request)) #
          (case get_user_query (r_params request) of
             Inl e \<Rightarrow> []
           | Inr query \<Rightarrow> [AgentInvoked query (p_sessionId (r_params request))])
    \<and> c_value (on_send_task u upsert ag tasks request) =
        c_value (invoke_agent ag (upsert tasks (r_params request)) request)
    \<and> c_tasks (on_send_task u upsert ag tasks request) =
        c_tasks (invoke_agent ag (upsert tasks (r_params request)) request)
    \<and> on_send_task_subscribe u upsert ag tasks request =
        \<lparr>c_value = Inr (Generator request), c_tasks = upsert tasks (r_params request),
         c_trace = [Upserted (p_id (r_params request))]\<rparr>
    \<and> g_trace (drain loads ag (on_send_task_subscribe u upsert ag tasks request)) =
        Upserted (p_id (r_params request)) #
          (case get_user_query (r_params request) of
             Inl e \<Rightarrow> []
           | Inr query \<Rightarrow> [AgentStreamed query (p_sessionId (r_params request))])
    \<and> g_events (drain loads ag (on_send_task_subscribe u upsert ag tasks request)) =
        g_events (stream_generator loads ag (upsert tasks (r_params request)) request)
    \<and> g_tasks (drain loads ag (on_send_task_subscribe u upsert ag tasks request)) =
        g_tasks (stream_generator loads ag (upsert tasks (r_params request)) request)"
    by (simp add: on_send_task_def on_send_task_subscribe_def validate_request_def Let_def
          drain_def invoke_agent_trace stream_generator_trace)
  from rejected accepted show ?thesis by (rule conjI)
qed

theorem on_send_task_validation_witness:
  "on_send_task (\<lparr>are_modalities_compatible = (\<lambda>accepted supported. case accepted of None \<Rightarrow> True | Some modes \<Rightarrow> \<exists>m\<in>set modes. m \<in> set supported), new_incompatible_types_error = (\<lambda>i. JSONRPCResponse i (OtherError (- 32005) ''Incompatible content types''))\<rparr>) upsert_task (\<lparr>stream = (\<lambda>q s. Yield (\<lparr>is_task_complete = True, updates = PyNone, content = PyStr ''done''\<rparr>) End), invoke = (\<lambda>q s. Inr ''ok''), SUPPORTED_CONTENT_TYPES = [''text'']\<rparr>) (Map.empty(''t1'' \<mapsto> \<lparr>t_id = ''t1'', t_sessionId = ''s1'', t_status = \<lparr>ts_state = SUBMITTED, ts_message = None\<rparr>, t_artifacts = None, t_history = None, t_metadata = None\<rparr>)) (\<lparr>r_id = ''r2'', r_params = \<lparr>p_id = ''t2'', p_sessionId = ''s1'', p_message = \<lparr>m_role = ''user'', m_parts = [TextPart (PyStr ''hello'')], m_metadata = None\<rparr>, p_acceptedOutputModes = Some [''image''], p_metadata = None\<rparr>\<rparr>) =
     \<lparr>c_value = Inr (JSONRPCResponse ''r2'' (OtherError (- 32005) ''Incompatible content types'')),
      c_tasks = (Map.empty(''t1'' \<mapsto> \<lparr>t_id = ''t1'', t_sessionId = ''s1'', t_status = \<lparr>ts_state = SUBMITTED, ts_message = None\<rparr>, t_artifacts = None, t_history = None, t_metadata = None\<rparr>)), c_trace = []\<rparr>
   \<and> on_send_task_subscribe (\<lparr>are_modalities_compatible = (\<lambda>accepted supported. case accepted of None \<Rightarrow> True | Some modes \<Rightarrow> \<exists>m\<in>set modes. m \<in> set supported), new_incompatible_types_error = (\<lambda>i. JSONRPCResponse i (OtherError (- 32005) ''Incompatible content types''))\<rparr>) upsert_task (\<lparr>stream = (\<lambda>q s. Yield (\<lparr>is_task_complete = True, updates = PyNone, content = PyStr ''done''\<rparr>) End), invoke = (\<lambda>q s. Inr ''ok''), SUPPORTED_CONTENT_TYPES = [''text'']\<rparr>) (Map.empty(''t1'' \<mapsto> \<lparr>t_id = ''t1'', t_sessionId = ''s1'', t_status = \<lparr>ts_state = SUBMITTED, ts_message = None\<rparr>, t_artifacts = None, t_history = None, t_metadata = None\<rparr>)) (\<lparr>r_id = ''r2'', r_params = \<lparr>p_id = ''t2'', p_sessionId = ''s1'', p_message = \<lparr>m_role = ''user'', m_parts = [TextPart (PyStr ''hello'')], m_metadata = None\<rparr>, p_acceptedOutputModes = Some [''image''], p_metadata = None\<rparr>\<rparr>) =
     \<lparr>c_value = Inr (Rejected (JSONRPCResponse ''r2'' (OtherError (- 32005) ''Incompatible content types''))),
      c_tasks = (Map.empty(''t1'' \<mapsto> \<lparr>t_id = ''t1'', t_sessionId = ''s1'', t_status = \<lparr>ts_state = SUBMITTED, ts_message = None\<rparr>, t_artifacts = None, t_history = None, t_metadata = None\<rparr>)), c_trace = []\<rparr>
   \<and> c_trace (on_send_task (\<lparr>are_modalities_compatible = (\<lambda>accepted supported. case accepted of None \<Rightarrow> True | Some modes \<Rightarrow> \<exists>m\<in>set modes. m \<in> set supported), new_incompatible_types_error = (\<lambda>i. JSONRPCResponse i (OtherError (- 32005) ''Incompatible content types''))\<rparr>) upsert_task (\<lparr>stream = (\<lambda>q s. Yield (\<lparr>is_task_complete = True, updates = PyNone, content = PyStr ''done''\<rparr>) End), invoke = (\<lambda>q s. Inr ''ok''), SUPPORTED_CONTENT_TYPES = [''text'']\<rparr>) (Map.empty(''t1'' \<mapsto> \<lparr>t_id = ''t1'', t_sessionId = ''s1'', t_status = \<lparr>ts_state = SUBMITTED, ts_message = None\<rparr>, t_artifacts = None, t_history = None, t_metadata = None\<rparr>)) (\<lparr>r_id = ''r2'', r_params = \<lparr>p_id = ''t2'', p_sessionId = ''s1'', p_message = \<lparr>m_role = ''user'', m_parts = [TextPart (PyStr ''hello'')], m_metadata = None\<rparr>, p_acceptedOutputModes = Some [''text''], p_metadata = None\<rparr>\<rparr>)) =
     [Upserted ''t2'', AgentInvoked (PyStr ''hello'') ''s1'']
   \<and> g_trace (drain Map.empty (\<lparr>stream = (\<lambda>q s. Yield (\<lparr>is_task_complete = True, updates = PyNone, content = PyStr ''done''\<rparr>) End), invoke = (\<lambda>q s. Inr ''ok''), SUPPORTED_CONTENT_TYPES = [''text'']\<rparr>)
        (on_send_task_subscribe (\<lparr>are_modalities_compatible = (\<lambda>accepted supported. case accepted of None \<Rightarrow> True | Some modes \<Rightarrow> \<exists>m\<in>set modes. m \<in> set supported), new_incompatible_types_error = (\<lambda>i. JSONRPCResponse i (OtherError (- 32005) ''Incompatible content types''))\<rparr>) upsert_task (\<lparr>stream = (\<lambda>q s. Yield (\<lparr>is_task_complete = True, updates = PyNone, content = PyStr ''done''\<rparr>) End), invoke = (\<lambda>q s. Inr ''ok''), SUPPORTED_CONTENT_TYPES = [''text'']\<rparr>) (Map.empty(''t1'' \<mapsto> \<lparr>t_id = ''t1'', t_sessionId = ''s1'', t_status = \<lparr>ts_state = SUBMITTED, ts_message = None\<rparr>, t_artifacts = None, t_history = None, t_metadata = None\<rparr>)) (\<lparr>r_id = ''r2'', r_params = \<lparr>p_id = ''t2'', p_sessionId = ''s1'', p_message = \<lparr>m_role = ''user'', m_parts = [TextPart (PyStr ''hello'')], m_metadata = None\<rparr>, p_acceptedOutputModes = Some [''text''], p_metadata = None\<rparr>\<rparr>))) =
     [Upserted ''t2'', AgentStreamed (PyStr ''hello'') ''s1'']"
proof -
  note bad = on_send_task_validation [where u = "\<lparr>are_modalities_compatible = (\<lambda>accepted supported. case accepted of None \<Rightarrow> True | Some modes \<Rightarrow> \<exists>m\<in>set modes. m \<in> set supported), new_incompatible_types_error = (\<lambda>i. JSONRPCResponse i (OtherError (- 32005) ''Incompatible content types''))\<rparr>" and upsert = upsert_task and ag = "\<lparr>stream = (\<lambda>q s. Yield (\<lparr>is_task_complete = True, updates = PyNone, content = PyStr ''done''\<rparr>) End), invoke = (\<lambda>q s. Inr ''ok''), SUPPORTED_CONTENT_TYPES = [''text'']\<rparr>"
      and tasks = "(Map.empty(''t1'' \<mapsto> \<lparr>t_id = ''t1'', t_sessionId = ''s1'', t_status = \<lparr>ts_state = SUBMITTED, ts_message = None\<rparr>, t_artifacts = None, t_history = None, t_metadata = None\<rparr>))" and request = "\<lparr>r_id = ''r2'', r_params = \<lparr>p_id = ''t2'', p_sessionId = ''s1'', p_message = \<lparr>m_role = ''user'', m_parts = [TextPart (PyStr ''hello'')], m_metadata = None\<rparr>, p_acceptedOutputModes = Some [''image''], p_metadata = None\<rparr>\<rparr>", THEN conjunct1]
  note ok = on_send_task_validation [where u = "\<lparr>are_modalities_compatible = (\<lambda>accepted supported. case accepted of None \<Rightarrow> True | Some modes \<Rightarrow> \<exists>m\<in>set modes. m \<in> set supported), new_incompatible_types_error = (\<lambda>i. JSONRPCResponse i (OtherError (- 32005) ''Incompatible content types''))\<rparr>" and upsert = upsert_task and ag = "\<lparr>stream = (\<lambda>q s. Yield (\<lparr>is_task_complete = True, updates = PyNone, content = PyStr ''done''\<rparr>) End), invoke = (\<lambda>q s. Inr ''ok''), SUPPORTED_CONTENT_TYPES = [''text'']\<rparr>"
      and tasks = "(Map.empty(''t1'' \<mapsto> \<lparr>t_id = ''t1'', t_sessionId = ''s1'', t_status = \<lparr>ts_state = SUBMITTED, ts_message = None\<rparr>, t_artifacts = None, t_history = None, t_metadata = None\<rparr>))" and request = "\<lparr>r_id = ''r2'', r_params = \<lparr>p_id = ''t2'', p_sessionId = ''s1'', p_message = \<lparr>m_role = ''user'', m_parts = [TextPart (PyStr ''hello'')], m_metadata = None\<rparr>, p_acceptedOutputModes = Some [''text''], p_metadata = None\<rparr>\<rparr>" and loads = Map.empty, THEN conjunct2]
  have a: "on_send_task (\<lparr>are_modalities_compatible = (\<lambda>accepted supported. case accepted of None \<Rightarrow> True | Some modes \<Rightarrow> \<exists>m\<in>set modes. m \<in> set supported), new_incompatible_types_error = (\<lambda>i. JSONRPCResponse i (OtherError (- 32005) ''Incompatible content types''))\<rparr>) upsert_task (\<lparr>stream = (\<lambda>q s. Yield (\<lparr>is_task_complete = True, updates = PyNone, content = PyStr ''done''\<rparr>) End), invoke = (\<lambda>q s. Inr ''ok''), SUPPORTED_CONTENT_TYPES = [''text'']\<rparr>) (Map.empty(''t1'' \<mapsto> \<lparr>t_id = ''t1'', t_sessionId = ''s1'', t_status = \<lparr>ts_state = SUBMITTED, ts_message = None\<rparr>, t_artifacts = None, t_history = None, t_metadata = None\<rparr>)) (\<lparr>r_id = ''r2'', r_params = \<lparr>p_id = ''t2'', p_sessionId = ''s1'', p_message = \<lparr>m_role = ''user'', m_parts = [TextPart (PyStr ''hello'')], m_metadata = None\<rparr>, p_acceptedOutputModes = Some [''image''], p_metadata = None\<rparr>\<rparr>) =
     \<lparr>c_value = Inr (JSONRPCResponse ''r2'' (OtherError (- 32005) ''Incompatible content types'')),
      c_tasks = (Map.empty(''t1'' \<mapsto> \<lparr>t_id = ''t1'', t_sessionId = ''s1'', t_status = \<lparr>ts_state = SUBMITTED, ts_message = None\<rparr>, t_artifacts = None, t_history = None, t_metadata = None\<rparr>)), c_trace = []\<rparr>
   \<and> on_send_task_subscribe (\<lparr>are_modalities_compatible = (\<lambda>accepted supported. case accepted of None \<Rightarrow> True | Some modes \<Rightarrow> \<exists>m\<in>set modes. m \<in> set supported), new_incompatible_types_error = (\<lambda>i. JSONRPCResponse i (OtherError (- 32005) ''Incompatible content types''))\<rparr>) upsert_task (\<lparr>stream = (\<lambda>q s. Yield (\<lparr>is_task_complete = True, updates = PyNone, content = PyStr ''done''\<rparr>) End), invoke = (\<lambda>q s. Inr ''ok''), SUPPORTED_CONTENT_TYPES = [''text'']\<rparr>) (Map.empty(''t1'' \<mapsto> \<lparr>t_id = ''t1'', t_sessionId = ''s1'', t_status = \<lparr>ts_state = SUBMITTED, ts_message = None\<rparr>, t_artifacts = None, t_history = None, t_metadata = None\<rparr>)) (\<lparr>r_id = ''r2'', r_params = \<lparr>p_id = ''t2'', p_sessionId = ''s1'', p_message = \<lparr>m_role = ''user'', m_parts = [TextPart (PyStr ''hello'')], m_metadata = None\<rparr>, p_acceptedOutputModes = Some [''image''], p_metadata = None\<rparr>\<rparr>) =
     \<lparr>c_value = Inr (Rejected (JSONRPCResponse ''r2'' (OtherError (- 32005) ''Incompatible content types''))),
      c_tasks = (Map.empty(''t1'' \<mapsto> \<lparr>t_id = ''t1'', t_sessionId = ''s1'', t_status = \<lparr>ts_state = SUBMITTED, ts_message = None\<rparr>, t_artifacts = None, t_history = None, t_metadata = None\<rparr>)), c_trace = []\<rparr>"
    using bad by simp
  have c: "are_modalities_compatible (\<lparr>are_modalities_compatible = (\<lambda>accepted supported. case accepted of None \<Rightarrow> True | Some modes \<Rightarrow> \<exists>m\<in>set modes. m \<in> set supported), new_incompatible_types_error = (\<lambda>i. JSONRPCResponse i (OtherError (- 32005) ''Incompatible content types''))\<rparr>)
             (p_acceptedOutputModes (r_params (\<lparr>r_id = ''r2'', r_params = \<lparr>p_id = ''t2'', p_sessionId = ''s1'', p_message = \<lparr>m_role = ''user'', m_parts = [TextPart (PyStr ''hello'')], m_metadata = None\<rparr>, p_acceptedOutputModes = Some [''text''], p_metadata = None\<rparr>\<rparr>))) (SUPPORTED_CONTENT_TYPES (\<lparr>stream = (\<lambda>q s. Yield (\<lparr>is_task_complete = True, updates = PyNone, content = PyStr ''done''\<rparr>) End), invoke = (\<lambda>q s. Inr ''ok''), SUPPORTED_CONTENT_TYPES = [''text'']\<rparr>))"
    by simp
  note ok' = ok [THEN mp, OF c]
  have b1: "c_trace (on_send_task (\<lparr>are_modalities_compatible = (\<lambda>accepted supported. case accepted of None \<Rightarrow> True | Some modes \<Rightarrow> \<exists>m\<in>set modes. m \<in> set supported), new_incompatible_types_error = (\<lambda>i. JSONRPCResponse i (OtherError (- 32005) ''Incompatible content types''))\<rparr>) upsert_task (\<lparr>stream = (\<lambda>q s. Yield (\<lparr>is_task_complete = True, updates = PyNone, content = PyStr ''done''\<rparr>) End), invoke = (\<lambda>q s. Inr ''ok''), SUPPORTED_CONTENT_TYPES = [''text'']\<rparr>) (Map.empty(''t1'' \<mapsto> \<lparr>t_id = ''t1'', t_sessionId = ''s1'', t_status = \<lparr>ts_state = SUBMITTED, ts_message = None\<rparr>, t_artifacts = None, t_history = None, t_metadata = None\<rparr>)) (\<lparr>r_id = ''r2'', r_params = \<lparr>p_id = ''t2'', p_sessionId = ''s1'', p_message = \<lparr>m_role = ''user'', m_parts = [TextPart (PyStr ''hello'')], m_metadata = None\<rparr>, p_acceptedOutputModes = Some [''text''], p_metadata = None\<rparr>\<rparr>)) =
     [Upserted ''t2'', AgentInvoked (PyStr ''hello'') ''s1'']"
    using ok' [THEN conjunct1] by (simp add: get_user_query_def)
  have b2: "g_trace (drain Map.empty (\<lparr>stream = (\<lambda>q s. Yield (\<lparr>is_task_complete = True, updates = PyNone, content = PyStr ''done''\<rparr>) End), invoke = (\<lambda>q s. Inr ''ok''), SUPPORTED_CONTENT_TYPES = [''text'']\<rparr>)
        (on_send_task_subscribe (\<lparr>are_modalities_compatible = (\<lambda>accepted supported. case accepted of None \<Rightarrow> True | Some modes \<Rightarrow> \<exists>m\<in>set modes. m \<in> set supported), new_incompatible_types_error = (\<lambda>i. JSONRPCResponse i (OtherError (- 32005) ''Incompatible content types''))\<rparr>) upsert_task (\<lparr>stream = (\<lambda>q s. Yield (\<lparr>is_task_complete = True, updates = PyNone, content = PyStr ''done''\<rparr>) End), invoke = (\<lambda>q s. Inr ''ok''), SUPPORTED_CONTENT_TYPES = [''text'']\<rparr>) (Map.empty(''t1'' \<mapsto> \<lparr>t_id = ''t1'', t_sessionId = ''s1'', t_status = \<lparr>ts_state = SUBMITTED, ts_message = None\<rparr>, t_artifacts = None, t_history = None, t_metadata = None\<rparr>)) (\<lparr>r_id = ''r2'', r_params = \<lparr>p_id = ''t2'', p_sessionId = ''s1'', p_message = \<lparr>m_role = ''user'', m_parts = [TextPart (PyStr ''hello'')], m_metadata = None\<rparr>, p_acceptedOutputModes = Some [''text''], p_metadata = None\<rparr>\<rparr>))) =
     [Upserted ''t2'', AgentStreamed (PyStr ''hello'') ''s1'']"
    using ok' [THEN conjunct2, THEN conjunct2, THEN conjunct2, THEN conjunct2, THEN conjunct1]
    by (simp add: get_user_query_def)
  from a b1 b2 show ?thesis by simp
qed

end
